theory Spec2Isabelle
  imports Complex_Main "HOL-Library.Multiset"
begin

section \<open>The editor of src/frontend/src/App.jsx\<close>

subsection \<open>Numbers of the editor state\<close>

text \<open>
  A numeric field of the editor state holds a JavaScript number or, after an import,
  \<^verbatim>\<open>null\<close>. Finite numbers are taken as reals: rounding and overflow are not modelled,
  and -0 is not told from 0. \<open>JNaN\<close> is \<^verbatim>\<open>NaN\<close> (what \<^verbatim>\<open>parseFloat('')\<close> gives),
  \<open>JPosInf\<close> and \<open>JNegInf\<close> are \<^verbatim>\<open>Infinity\<close> and \<^verbatim>\<open>-Infinity\<close> (what \<^verbatim>\<open>JSON.parse\<close>
  gives for a literal such as \<^verbatim>\<open>1e999\<close>), \<open>JNull\<close> is \<^verbatim>\<open>null\<close>.
\<close>

datatype jsvalue = JNum real | JNaN | JNull | JPosInf | JNegInf

text \<open>
  The finite number a value converts to under ToNumber, where \<^verbatim>\<open>null\<close> is 0; \<open>None\<close> for
  \<^verbatim>\<open>NaN\<close> and the infinities.
\<close>

fun to_number :: "jsvalue \<Rightarrow> real option" where
  "to_number (JNum r) = Some r"
| "to_number JNaN = None"
| "to_number JNull = Some 0"
| "to_number JPosInf = None"
| "to_number JNegInf = None"

text \<open>
  Arithmetic with an operand that is not finite follows IEEE 754: \<^verbatim>\<open>NaN\<close> as soon as one
  operand is \<^verbatim>\<open>NaN\<close>, otherwise an infinity whose sign is worked out from the operands, or
  \<^verbatim>\<open>NaN\<close> where there is none (\<^verbatim>\<open>Infinity - Infinity\<close>, \<^verbatim>\<open>Infinity * 0\<close>, \<^verbatim>\<open>0 / 0\<close>).
  \<open>inf_of\<close> is the sign of an infinity and 0 for every other value; \<open>sgn_of\<close> is the sign of
  any value.
\<close>

fun inf_of :: "jsvalue \<Rightarrow> real" where
  "inf_of JPosInf = 1"
| "inf_of JNegInf = - 1"
| "inf_of v = 0"

fun sgn_of :: "jsvalue \<Rightarrow> real" where
  "sgn_of (JNum r) = sgn r"
| "sgn_of JPosInf = 1"
| "sgn_of JNegInf = - 1"
| "sgn_of v = 0"

definition js_inf :: "real \<Rightarrow> jsvalue" where
  "js_inf s = (if 0 < s then JPosInf else if s < 0 then JNegInf else JNaN)"

definition js_lift2 ::
  "(real \<Rightarrow> real \<Rightarrow> real) \<Rightarrow> (jsvalue \<Rightarrow> jsvalue \<Rightarrow> real) \<Rightarrow> jsvalue \<Rightarrow> jsvalue \<Rightarrow> jsvalue" where
  "js_lift2 f sign a b =
     (case (to_number a, to_number b) of
        (Some u, Some v) \<Rightarrow> JNum (f u v)
      | _ \<Rightarrow> if a = JNaN \<or> b = JNaN then JNaN else js_inf (sign a b))"

definition js_lift1 :: "(real \<Rightarrow> real) \<Rightarrow> (jsvalue \<Rightarrow> jsvalue) \<Rightarrow> jsvalue \<Rightarrow> jsvalue" where
  "js_lift1 f other a = (case to_number a of Some u \<Rightarrow> JNum (f u) | None \<Rightarrow> other a)"

definition js_add :: "jsvalue \<Rightarrow> jsvalue \<Rightarrow> jsvalue" where
  "js_add = js_lift2 (+) (\<lambda>a b. inf_of a + inf_of b)"

definition js_sub :: "jsvalue \<Rightarrow> jsvalue \<Rightarrow> jsvalue" where
  "js_sub = js_lift2 (-) (\<lambda>a b. inf_of a - inf_of b)"

definition js_mul :: "jsvalue \<Rightarrow> jsvalue \<Rightarrow> jsvalue" where
  "js_mul = js_lift2 (*) (\<lambda>a b. sgn_of a * sgn_of b)"

text \<open>
  Division by a constant (the program divides by 180 and by GRID_SIZE only). A finite number
  over 0 is an infinity of its sign, and \<^verbatim>\<open>0 / 0\<close> is \<^verbatim>\<open>NaN\<close>.
\<close>

definition js_div_const :: "jsvalue \<Rightarrow> real \<Rightarrow> jsvalue" where
  "js_div_const a k =
     (case to_number a of
        Some u \<Rightarrow> (if k = 0 then js_inf (sgn u) else JNum (u / k))
      | None \<Rightarrow> js_inf (if k < 0 then - inf_of a else inf_of a))"

definition js_cos :: "jsvalue \<Rightarrow> jsvalue" where
  "js_cos = js_lift1 cos (\<lambda>a. JNaN)"

definition js_sin :: "jsvalue \<Rightarrow> jsvalue" where
  "js_sin = js_lift1 sin (\<lambda>a. JNaN)"

definition js_square :: "jsvalue \<Rightarrow> jsvalue" where
  "js_square a = js_lift1 (\<lambda>u. u ^ 2) (\<lambda>a. if a = JNaN then JNaN else JPosInf) a"

definition js_sqrt :: "jsvalue \<Rightarrow> jsvalue" where
  "js_sqrt a =
     (case to_number a of
        Some u \<Rightarrow> (if u < 0 then JNaN else JNum (sqrt u))
      | None \<Rightarrow> (if a = JPosInf then JPosInf else JNaN))"

text \<open>\<^verbatim>\<open>Math.round\<close>: the nearest integer, a tie going up; a value that is not finite is kept.\<close>

definition js_round :: "jsvalue \<Rightarrow> jsvalue" where
  "js_round a = js_lift1 (\<lambda>u. of_int \<lfloor>u + 1 / 2\<rfloor>) (\<lambda>a. a) a"

text \<open>\<^verbatim>\<open>a < b\<close>: false as soon as one side is \<^verbatim>\<open>NaN\<close>.\<close>

definition js_lt :: "jsvalue \<Rightarrow> jsvalue \<Rightarrow> bool" where
  "js_lt a b =
     (case (to_number a, to_number b) of
        (Some u, Some v) \<Rightarrow> u < v
      | _ \<Rightarrow> a \<noteq> JNaN \<and> b \<noteq> JNaN \<and>
             (a = JNegInf \<and> b \<noteq> JNegInf \<or> b = JPosInf \<and> a \<noteq> JPosInf))"

subsection \<open>Constants and the table of component types\<close>

definition GRID_SIZE :: real where
  "GRID_SIZE = 60"

definition PORT_RADIUS :: real where
  "PORT_RADIUS = 8"

record port =
  port_id :: string
  port_x :: real
  port_y :: real
  port_type :: string

text \<open>The \<open>icon\<close> of a type is kept as the list of its Unicode code points.\<close>

record component_type =
  ct_name :: string
  ct_color :: string
  ct_icon :: "nat list"
  ct_ports :: "port list"
  ct_width :: real
  ct_height :: real

definition mk_port :: "string \<Rightarrow> real \<Rightarrow> real \<Rightarrow> string \<Rightarrow> port" where
  "mk_port i px py t = \<lparr>port_id = i, port_x = px, port_y = py, port_type = t\<rparr>"

text \<open>\<open>COMPONENT_TYPES\<close>, in the order of the object literal.\<close>

definition COMPONENT_TYPES :: "(string \<times> component_type) list" where
  "COMPONENT_TYPES =
    [(''laser'',
        \<lparr>ct_name = ''Laser'', ct_color = ''#fbbf24'', ct_icon = [9673],
         ct_ports = [mk_port ''out'' 30 0 ''output''],
         ct_width = 40, ct_height = 40\<rparr>),
     (''mirror'',
        \<lparr>ct_name = ''Mirror'', ct_color = ''#60a5fa'', ct_icon = [124],
         ct_ports = [mk_port ''in'' (- 20) 0 ''input'', mk_port ''out'' 0 (- 20) ''output''],
         ct_width = 40, ct_height = 40\<rparr>),
     (''beamsplitter'',
        \<lparr>ct_name = ''Beam Splitter'', ct_color = ''#a78bfa'', ct_icon = [8853],
         ct_ports = [mk_port ''in'' (- 25) 0 ''input'', mk_port ''out1'' 25 0 ''output'',
                     mk_port ''out2'' 0 25 ''output'', mk_port ''out3'' 0 (- 25) ''output''],
         ct_width = 50, ct_height = 50\<rparr>),
     (''lens'',
        \<lparr>ct_name = ''Lens'', ct_color = ''#34d399'', ct_icon = [40, 41],
         ct_ports = [mk_port ''in'' (- 30) 0 ''input'', mk_port ''out'' 30 0 ''output''],
         ct_width = 40, ct_height = 50\<rparr>),
     (''photodetector'',
        \<lparr>ct_name = ''Photo-detector'', ct_color = ''#f87171'', ct_icon = [9633],
         ct_ports = [mk_port ''in'' (- 20) 0 ''input''],
         ct_width = 40, ct_height = 40\<rparr>)]"

text \<open>\<^verbatim>\<open>COMPONENT_TYPES[type]\<close>: \<open>None\<close> is \<^verbatim>\<open>undefined\<close>.\<close>

definition component_type_of :: "string \<Rightarrow> component_type option" where
  "component_type_of t = map_of COMPONENT_TYPES t"

subsection \<open>The editor state\<close>

text \<open>
  A component and a connection as \<open>addComponent\<close>, \<open>handleMouseUp\<close> and \<open>importJSON\<close>
  build them. An id is the integer \<^verbatim>\<open>Date.now()\<close> gave. The properties of a component
  are an object of named numbers, kept as an association list in insertion order.
\<close>

record component =
  c_id :: int
  c_type :: string
  c_x :: jsvalue
  c_y :: jsvalue
  c_angle :: jsvalue
  c_properties :: "(string \<times> jsvalue) list"

record connection =
  conn_id :: int
  fromComp :: int
  fromPort :: string
  toComp :: int
  toPort :: string

record world_pos =
  w_x :: jsvalue
  w_y :: jsvalue
  w_portId :: string

record port_info =
  pi_component :: component
  pi_port :: port
  pi_worldPos :: world_pos

record connecting_info =
  k_fromComp :: int
  k_fromPort :: string
  k_startX :: jsvalue
  k_startY :: jsvalue
  k_currentX :: jsvalue
  k_currentY :: jsvalue

record dragging_info =
  d_id :: int
  d_offsetX :: jsvalue
  d_offsetY :: jsvalue

record sweep_config =
  startFreq :: jsvalue
  stopFreq :: jsvalue
  points :: jsvalue

text \<open>
  The rays and the result document come from the simulation service; the editor stores
  them and writes them into an export, and no function modelled here looks inside.
\<close>

typedecl response_ray
typedecl response_document

record editor =
  components :: "component list"
  connections :: "connection list"
  selectedId :: "int option"
  dragging :: "dragging_info option"
  connecting :: "connecting_info option"
  hoveredPort :: "port_info option"
  rays :: "response_ray list"
  showRays :: bool
  sweepConfig :: "sweep_config option"
  simulationResult :: "response_document option"
  loading :: bool
  error :: "string option"

text \<open>The state of a freshly mounted editor (the initial values of the \<open>useState\<close> hooks).\<close>

definition initial_editor :: editor where
  "initial_editor =
     \<lparr>components = [], connections = [], selectedId = None, dragging = None,
      connecting = None, hoveredPort = None, rays = [], showRays = False,
      sweepConfig = Some \<lparr>startFreq = JNum 400, stopFreq = JNum 700, points = JNum 10\<rparr>,
      simulationResult = None, loading = False, error = None\<rparr>"

datatype js_error = TypeError

subsection \<open>Adding, deleting and updating components\<close>

definition getDefaultProperties :: "string \<Rightarrow> (string \<times> jsvalue) list" where
  "getDefaultProperties t =
     (if t = ''laser'' then [(''wavelength'', JNum 550), (''power'', JNum 1)]
      else if t = ''mirror'' then [(''reflectivity'', JNum 0.95), (''roc'', JNum 1000)]
      else if t = ''beamsplitter'' then [(''reflectivity'', JNum 0.5), (''transmissivity'', JNum 0.5)]
      else if t = ''lens'' then [(''focalLength'', JNum 100)]
      else if t = ''photodetector'' then [(''sensitivity'', JNum 1)]
      else [])"

text \<open>\<open>addComponent\<close>; \<open>now\<close> is the value of \<^verbatim>\<open>Date.now()\<close>.\<close>

definition addComponent :: "editor \<Rightarrow> int \<Rightarrow> string \<Rightarrow> editor" where
  "addComponent s now t =
     s\<lparr>components := components s @
         [\<lparr>c_id = now, c_type = t, c_x = JNum 120, c_y = JNum 120, c_angle = JNum 0,
           c_properties = getDefaultProperties t\<rparr>]\<rparr>"

definition deleteComponent :: "editor \<Rightarrow> int \<Rightarrow> editor" where
  "deleteComponent s i =
     s\<lparr>components := filter (\<lambda>c. c_id c \<noteq> i) (components s),
       connections := filter (\<lambda>c. fromComp c \<noteq> i \<and> toComp c \<noteq> i) (connections s),
       selectedId := (if selectedId s = Some i then None else selectedId s)\<rparr>"

text \<open>
  The \<open>updates\<close> object of \<open>updateComponent\<close>: its callers pass \<^verbatim>\<open>{x, y}\<close>, \<^verbatim>\<open>{x}\<close>,
  \<^verbatim>\<open>{y}\<close> or \<^verbatim>\<open>{angle}\<close>; a field that is absent is \<open>None\<close>.
\<close>

record updates =
  u_x :: "jsvalue option"
  u_y :: "jsvalue option"
  u_angle :: "jsvalue option"

definition apply_updates :: "component \<Rightarrow> updates \<Rightarrow> component" where
  "apply_updates c u =
     c\<lparr>c_x := (case u_x u of Some v \<Rightarrow> v | None \<Rightarrow> c_x c),
       c_y := (case u_y u of Some v \<Rightarrow> v | None \<Rightarrow> c_y c),
       c_angle := (case u_angle u of Some v \<Rightarrow> v | None \<Rightarrow> c_angle c)\<rparr>"

definition updateComponent :: "editor \<Rightarrow> int \<Rightarrow> updates \<Rightarrow> editor" where
  "updateComponent s i u =
     s\<lparr>components := map (\<lambda>c. if c_id c = i then apply_updates c u else c) (components s)\<rparr>"

text \<open>
  \<^verbatim>\<open>v || 0\<close> on a number: 0 when \<open>v\<close> is \<^verbatim>\<open>NaN\<close>, 0 or \<^verbatim>\<open>null\<close>; an infinity is truthy
  and is kept.
\<close>

definition or_zero :: "jsvalue \<Rightarrow> jsvalue" where
  "or_zero v =
     (case v of
        JNum r \<Rightarrow> JNum r
      | JPosInf \<Rightarrow> JPosInf
      | JNegInf \<Rightarrow> JNegInf
      | _ \<Rightarrow> JNum 0)"

text \<open>
  \<^verbatim>\<open>{ ...props, [property]: v }\<close>: an existing name keeps its place, a new one goes last.
\<close>

fun set_property :: "(string \<times> jsvalue) list \<Rightarrow> string \<Rightarrow> jsvalue \<Rightarrow> (string \<times> jsvalue) list" where
  "set_property [] k v = [(k, v)]"
| "set_property ((k', v') # ps) k v =
     (if k' = k then (k, v) # ps else (k', v') # set_property ps k v)"

text \<open>\<open>updateProperty\<close>; \<open>parsed\<close> is \<^verbatim>\<open>parseFloat(value)\<close>.\<close>

definition updateProperty :: "editor \<Rightarrow> int \<Rightarrow> string \<Rightarrow> jsvalue \<Rightarrow> editor" where
  "updateProperty s i property parsed =
     s\<lparr>components :=
         map (\<lambda>c. if c_id c = i
                  then c\<lparr>c_properties := set_property (c_properties c) property (or_zero parsed)\<rparr>
                  else c)
             (components s)\<rparr>"

definition deleteConnection :: "editor \<Rightarrow> int \<Rightarrow> editor" where
  "deleteConnection s connId =
     s\<lparr>connections := filter (\<lambda>c. conn_id c \<noteq> connId) (connections s)\<rparr>"

subsection \<open>Ports in world coordinates\<close>

definition getPortWorldPosition :: "component \<Rightarrow> port \<Rightarrow> world_pos" where
  "getPortWorldPosition c p =
     (let a = js_div_const (js_mul (c_angle c) (JNum pi)) 180;
          co = js_cos a;
          si = js_sin a
      in \<lparr>w_x = js_sub (js_add (c_x c) (js_mul (JNum (port_x p)) co)) (js_mul (JNum (port_y p)) si),
          w_y = js_add (js_add (c_y c) (js_mul (JNum (port_x p)) si)) (js_mul (JNum (port_y p)) co),
          w_portId = port_id p\<rparr>)"

subsection \<open>Hit-testing and the mouse handlers\<close>

definition port_hit :: "component \<Rightarrow> real \<Rightarrow> real \<Rightarrow> port \<Rightarrow> bool" where
  "port_hit c mx my p =
     (let w = getPortWorldPosition c p;
          dist = js_sqrt (js_add (js_square (js_sub (JNum mx) (w_x w)))
                                 (js_square (js_sub (JNum my) (w_y w))))
      in js_lt dist (JNum (PORT_RADIUS * 2)))"

text \<open>
  The two nested loops of \<open>findPortAtPosition\<close>. A component whose type is not a key of
  \<open>COMPONENT_TYPES\<close> makes \<^verbatim>\<open>compType.ports\<close> throw when the loop reaches it.
\<close>

fun findPortAtPosition_in :: "component list \<Rightarrow> real \<Rightarrow> real \<Rightarrow> js_error + port_info option" where
  "findPortAtPosition_in [] mx my = Inr None"
| "findPortAtPosition_in (c # cs) mx my =
     (case component_type_of (c_type c) of
        None \<Rightarrow> Inl TypeError
      | Some t \<Rightarrow>
          (case find (port_hit c mx my) (ct_ports t) of
             Some p \<Rightarrow>
               Inr (Some \<lparr>pi_component = c, pi_port = p, pi_worldPos = getPortWorldPosition c p\<rparr>)
           | None \<Rightarrow> findPortAtPosition_in cs mx my))"

definition findPortAtPosition :: "editor \<Rightarrow> real \<Rightarrow> real \<Rightarrow> js_error + port_info option" where
  "findPortAtPosition s mx my = findPortAtPosition_in (components s) mx my"

text \<open>
  What a handler leaves behind: the next state, or an exception together with the state
  holding the updates the handler had queued before it threw.
\<close>

datatype outcome = Done editor | Threw js_error editor

fun state_of :: "outcome \<Rightarrow> editor" where
  "state_of (Done s) = s"
| "state_of (Threw e s) = s"

text \<open>
  \<open>handleMouseDown\<close>; \<open>mx\<close>, \<open>my\<close> are the canvas coordinates
  \<^verbatim>\<open>e.clientX - rect.left\<close>, \<^verbatim>\<open>e.clientY - rect.top\<close>.
\<close>

definition handleMouseDown :: "editor \<Rightarrow> nat \<Rightarrow> real \<Rightarrow> real \<Rightarrow> int \<Rightarrow> outcome" where
  "handleMouseDown s button mx my i =
     (if button \<noteq> 0 then Done s
      else case findPortAtPosition s mx my of
        Inl e \<Rightarrow> Threw e s
      | Inr (Some pinfo) \<Rightarrow>
          (if port_type (pi_port pinfo) = ''output''
           then Done (s\<lparr>connecting := Some
                  \<lparr>k_fromComp = c_id (pi_component pinfo),
                   k_fromPort = port_id (pi_port pinfo),
                   k_startX = w_x (pi_worldPos pinfo),
                   k_startY = w_y (pi_worldPos pinfo),
                   k_currentX = JNum mx,
                   k_currentY = JNum my\<rparr>\<rparr>)
           else Done s)
      | Inr None \<Rightarrow>
          (let s1 = s\<lparr>selectedId := Some i\<rparr>
           in case find (\<lambda>c. c_id c = i) (components s) of
                None \<Rightarrow> Threw TypeError s1
              | Some c \<Rightarrow>
                  Done (s1\<lparr>dragging := Some
                     \<lparr>d_id = i,
                      d_offsetX = js_sub (JNum mx) (c_x c),
                      d_offsetY = js_sub (JNum my) (c_y c)\<rparr>\<rparr>)))"

text \<open>The \<open>onMouseDown\<close> of the canvas, the only caller of \<open>handleMouseDown\<close>.\<close>

definition near_centre :: "real \<Rightarrow> real \<Rightarrow> component \<Rightarrow> bool" where
  "near_centre mx my c =
     js_lt (js_sqrt (js_add (js_square (js_sub (JNum mx) (c_x c)))
                            (js_square (js_sub (JNum my) (c_y c)))))
           (JNum 30)"

definition canvasMouseDown :: "editor \<Rightarrow> nat \<Rightarrow> real \<Rightarrow> real \<Rightarrow> outcome" where
  "canvasMouseDown s button mx my =
     (case find (near_centre mx my) (components s) of
        Some clicked \<Rightarrow> handleMouseDown s button mx my (c_id clicked)
      | None \<Rightarrow> Done (s\<lparr>selectedId := None\<rparr>))"

definition snap :: "jsvalue \<Rightarrow> jsvalue" where
  "snap v = js_mul (js_round (js_div_const v GRID_SIZE)) (JNum GRID_SIZE)"

definition handleMouseMove :: "editor \<Rightarrow> real \<Rightarrow> real \<Rightarrow> outcome" where
  "handleMouseMove s mx my =
     (case findPortAtPosition s mx my of
        Inl e \<Rightarrow> Threw e s
      | Inr pinfo \<Rightarrow>
          (let s1 = s\<lparr>hoveredPort := pinfo\<rparr>
           in case connecting s of
                Some k \<Rightarrow> Done (s1\<lparr>connecting := Some (k\<lparr>k_currentX := JNum mx, k_currentY := JNum my\<rparr>)\<rparr>)
              | None \<Rightarrow>
                  (case dragging s of
                     Some d \<Rightarrow>
                       Done (updateComponent s1 (d_id d)
                               \<lparr>u_x = Some (snap (js_sub (JNum mx) (d_offsetX d))),
                                u_y = Some (snap (js_sub (JNum my) (d_offsetY d))),
                                u_angle = None\<rparr>)
                   | None \<Rightarrow> Done s1)))"

definition same_ends :: "connection \<Rightarrow> connection \<Rightarrow> bool" where
  "same_ends n c =
     (fromComp c = fromComp n \<and> fromPort c = fromPort n \<and> toComp c = toComp n \<and> toPort c = toPort n)"

text \<open>\<open>handleMouseUp\<close>; \<open>now\<close> is the value of \<^verbatim>\<open>Date.now()\<close>.\<close>

definition handleMouseUp :: "editor \<Rightarrow> real \<Rightarrow> real \<Rightarrow> int \<Rightarrow> outcome" where
  "handleMouseUp s mx my now =
     (case connecting s of
        None \<Rightarrow> Done (s\<lparr>dragging := None\<rparr>)
      | Some k \<Rightarrow>
          (case findPortAtPosition s mx my of
             Inl e \<Rightarrow> Threw e s
           | Inr pinfo \<Rightarrow>
               (let s1 =
                  (case pinfo of
                     None \<Rightarrow> s
                   | Some q \<Rightarrow>
                       (if port_type (pi_port q) = ''input''
                        then (let newConnection =
                                    \<lparr>conn_id = now,
                                     fromComp = k_fromComp k,
                                     fromPort = k_fromPort k,
                                     toComp = c_id (pi_component q),
                                     toPort = port_id (pi_port q)\<rparr>
                              in if list_ex (same_ends newConnection) (connections s) then s
                                 else s\<lparr>connections := connections s @ [newConnection]\<rparr>)
                        else s))
                in Done (s1\<lparr>connecting := None, dragging := None\<rparr>))))"

subsection \<open>Export and import\<close>

record doc_position =
  pos_x :: jsvalue
  pos_y :: jsvalue

record doc_component =
  dc_id :: int
  dc_type :: string
  dc_position :: doc_position
  dc_rotation :: jsvalue
  dc_properties :: "(string \<times> jsvalue) list"

record doc_endpoint =
  e_componentId :: int
  e_port :: string

record doc_connection =
  dn_id :: int
  dn_from :: doc_endpoint
  dn_to :: doc_endpoint

record simulation_doc =
  sim_sweepConfig :: "sweep_config option"
  sim_rays :: "response_ray list"

text \<open>
  The setup document. \<open>exportJSON\<close> writes every field; an imported document may lack
  \<^verbatim>\<open>connections\<close> and \<^verbatim>\<open>simulation\<close> (\<open>None\<close>), which \<open>importJSON\<close> tests for.
\<close>

record setup_doc =
  doc_version :: string
  doc_timestamp :: string
  doc_components :: "doc_component list"
  doc_connections :: "doc_connection list option"
  doc_simulation :: "simulation_doc option"
  doc_results :: "response_document option"

text \<open>
  The object \<open>exportJSON\<close> builds; \<open>stamp\<close> is \<^verbatim>\<open>new Date().toISOString()\<close>. The
  download holds \<^verbatim>\<open>JSON.stringify\<close> of it.
\<close>

definition exportJSON :: "editor \<Rightarrow> string \<Rightarrow> setup_doc" where
  "exportJSON s stamp =
     \<lparr>doc_version = ''1.0'',
      doc_timestamp = stamp,
      doc_components =
        map (\<lambda>c. \<lparr>dc_id = c_id c, dc_type = c_type c,
                   dc_position = \<lparr>pos_x = c_x c, pos_y = c_y c\<rparr>,
                   dc_rotation = c_angle c,
                   dc_properties = c_properties c\<rparr>)
            (components s),
      doc_connections =
        Some (map (\<lambda>c. \<lparr>dn_id = conn_id c,
                         dn_from = \<lparr>e_componentId = fromComp c, e_port = fromPort c\<rparr>,
                         dn_to = \<lparr>e_componentId = toComp c, e_port = toPort c\<rparr>\<rparr>)
                  (connections s)),
      doc_simulation =
        Some \<lparr>sim_sweepConfig = sweepConfig s,
              sim_rays = (if showRays s then rays s else [])\<rparr>,
      doc_results = simulationResult s\<rparr>"

text \<open>
  What \<^verbatim>\<open>JSON.parse\<close> reads back from the text \<^verbatim>\<open>JSON.stringify\<close> wrote: JSON has no
  \<^verbatim>\<open>NaN\<close> and no infinity, and \<^verbatim>\<open>JSON.stringify\<close> writes \<^verbatim>\<open>null\<close> for each of them;
  integers, strings, finite numbers and \<^verbatim>\<open>null\<close> come back as they were.
\<close>

fun json_number :: "jsvalue \<Rightarrow> jsvalue" where
  "json_number (JNum r) = JNum r"
| "json_number JNull = JNull"
| "json_number JNaN = JNull"
| "json_number JPosInf = JNull"
| "json_number JNegInf = JNull"

definition json_sweep :: "sweep_config \<Rightarrow> sweep_config" where
  "json_sweep c =
     \<lparr>startFreq = json_number (startFreq c), stopFreq = json_number (stopFreq c),
      points = json_number (points c)\<rparr>"

definition json_component :: "doc_component \<Rightarrow> doc_component" where
  "json_component c =
     c\<lparr>dc_position := \<lparr>pos_x = json_number (pos_x (dc_position c)),
                         pos_y = json_number (pos_y (dc_position c))\<rparr>,
       dc_rotation := json_number (dc_rotation c),
       dc_properties := map (\<lambda>(k, v). (k, json_number v)) (dc_properties c)\<rparr>"

definition JSON_parse_stringify :: "setup_doc \<Rightarrow> setup_doc" where
  "JSON_parse_stringify d =
     d\<lparr>doc_components := map json_component (doc_components d),
       doc_simulation :=
         map_option (\<lambda>m. m\<lparr>sim_sweepConfig := map_option json_sweep (sim_sweepConfig m)\<rparr>)
                    (doc_simulation d)\<rparr>"

text \<open>
  The file handed to \<open>importJSON\<close>: none chosen; one whose text \<^verbatim>\<open>JSON.parse\<close> rejects or
  whose \<^verbatim>\<open>components\<close> is not a list of components, so that the first statement of the
  \<^verbatim>\<open>try\<close> block throws; or a document. The entries of a document are taken as
  well-formed.
\<close>

datatype file_content = NoFile | Unreadable | Document setup_doc

definition importJSON :: "editor \<Rightarrow> file_content \<Rightarrow> editor" where
  "importJSON s f =
     (case f of
        NoFile \<Rightarrow> s
      | Unreadable \<Rightarrow> s\<lparr>error := Some ''Invalid JSON file''\<rparr>
      | Document d \<Rightarrow>
          s\<lparr>components :=
              map (\<lambda>c. \<lparr>c_id = dc_id c, c_type = dc_type c,
                         c_x = pos_x (dc_position c), c_y = pos_y (dc_position c),
                         c_angle = dc_rotation c, c_properties = dc_properties c\<rparr>)
                  (doc_components d),
            connections :=
              (case doc_connections d of
                 Some cs \<Rightarrow>
                   map (\<lambda>c. \<lparr>conn_id = dn_id c,
                              fromComp = e_componentId (dn_from c), fromPort = e_port (dn_from c),
                              toComp = e_componentId (dn_to c), toPort = e_port (dn_to c)\<rparr>)
                       cs
               | None \<Rightarrow> connections s),
            sweepConfig :=
              (case doc_simulation d of
                 Some m \<Rightarrow> sim_sweepConfig m
               | None \<Rightarrow> sweepConfig s)\<rparr>)"

subsection \<open>The editor as a transition system\<close>

datatype event =
    AddComponent int string
  | DeleteComponent int
  | UpdateComponent int updates
  | UpdateProperty int string jsvalue
  | DeleteConnection int
  | CanvasMouseDown nat real real
  | MouseMove real real
  | MouseUp real real int
  | ImportJSON file_content

fun step :: "editor \<Rightarrow> event \<Rightarrow> editor" where
  "step s (AddComponent now t) = addComponent s now t"
| "step s (DeleteComponent i) = deleteComponent s i"
| "step s (UpdateComponent i u) = updateComponent s i u"
| "step s (UpdateProperty i k v) = updateProperty s i k v"
| "step s (DeleteConnection i) = deleteConnection s i"
| "step s (CanvasMouseDown b mx my) = state_of (canvasMouseDown s b mx my)"
| "step s (MouseMove mx my) = state_of (handleMouseMove s mx my)"
| "step s (MouseUp mx my now) = state_of (handleMouseUp s mx my now)"
| "step s (ImportJSON f) = importJSON s f"

fun run :: "editor \<Rightarrow> event list \<Rightarrow> editor" where
  "run s [] = s"
| "run s (e # es) = run (step s e) es"

text \<open>
  What the page lets the user do in state \<open>s\<close>: the toolbar adds a component of a type of
  the table; the properties panel edits and deletes the selected component only, and shows one
  field per property it has; a connection is deleted from the list of connections shown; the
  mouse and the file chooser are always there.
\<close>

definition selectedComponent :: "editor \<Rightarrow> component option" where
  "selectedComponent s =
     (case selectedId s of
        None \<Rightarrow> None
      | Some i \<Rightarrow> find (\<lambda>c. c_id c = i) (components s))"

definition enabled :: "editor \<Rightarrow> event \<Rightarrow> bool" where
  "enabled s e =
     (case e of
        AddComponent now t \<Rightarrow> t \<in> set (map fst COMPONENT_TYPES)
      | DeleteComponent i \<Rightarrow> map_option c_id (selectedComponent s) = Some i
      | UpdateComponent i u \<Rightarrow> map_option c_id (selectedComponent s) = Some i
      | UpdateProperty i k v \<Rightarrow>
          (case selectedComponent s of
             None \<Rightarrow> False
           | Some c \<Rightarrow> c_id c = i \<and> k \<in> set (map fst (c_properties c)))
      | DeleteConnection i \<Rightarrow> i \<in> set (map conn_id (connections s))
      | _ \<Rightarrow> True)"

fun enabled_run :: "editor \<Rightarrow> event list \<Rightarrow> bool" where
  "enabled_run s [] = True"
| "enabled_run s (e # es) = (enabled s e \<and> enabled_run (step s e) es)"

subsection \<open>Well-formed connections\<close>

text \<open>
  A component with id \<open>i\<close> is present whose type has a port \<open>p\<close> of role \<open>r\<close>.
\<close>

definition has_port :: "component list \<Rightarrow> int \<Rightarrow> string \<Rightarrow> string \<Rightarrow> bool" where
  "has_port cs i p r =
     list_ex (\<lambda>c. c_id c = i \<and>
                (case component_type_of (c_type c) of
                   None \<Rightarrow> False
                 | Some t \<Rightarrow> list_ex (\<lambda>q. port_id q = p \<and> port_type q = r) (ct_ports t)))
             cs"

definition connection_ok :: "component list \<Rightarrow> connection \<Rightarrow> bool" where
  "connection_ok cs c =
     (has_port cs (fromComp c) (fromPort c) ''output'' \<and> has_port cs (toComp c) (toPort c) ''input'')"

definition connections_ok :: "editor \<Rightarrow> bool" where
  "connections_ok s = list_all (connection_ok (components s)) (connections s)"

text \<open>The pending connection of a drag that began on a port, if there is one.\<close>

definition pending_ok :: "editor \<Rightarrow> bool" where
  "pending_ok s =
     (case connecting s of
        None \<Rightarrow> True
      | Some k \<Rightarrow> has_port (components s) (k_fromComp k) (k_fromPort k) ''output'')"

text \<open>Every connection names components that are present.\<close>

definition present :: "component list \<Rightarrow> int \<Rightarrow> bool" where
  "present cs i = list_ex (\<lambda>c. c_id c = i) cs"

definition no_dangling :: "editor \<Rightarrow> bool" where
  "no_dangling s =
     list_all (\<lambda>c. present (components s) (fromComp c) \<and> present (components s) (toComp c))
              (connections s)"

text \<open>
  Events after which the well-formedness of connections is kept: every one but an import,
  and but the deletion of the component on which a connection drag still pending began.
\<close>

definition safe_event :: "editor \<Rightarrow> event \<Rightarrow> bool" where
  "safe_event s e =
     (case e of
        ImportJSON f \<Rightarrow> False
      | DeleteComponent i \<Rightarrow>
          (case connecting s of None \<Rightarrow> True | Some k \<Rightarrow> k_fromComp k \<noteq> i)
      | _ \<Rightarrow> True)"

fun safe_run :: "editor \<Rightarrow> event list \<Rightarrow> bool" where
  "safe_run s [] = True"
| "safe_run s (e # es) = (safe_event s e \<and> safe_run (step s e) es)"

definition editor_inv :: "editor \<Rightarrow> bool" where
  "editor_inv s = (connections_ok s \<and> pending_ok s)"




text \<open>Exporting \<open>s\<close> and importing the downloaded file into an editor in state \<open>s0\<close>.\<close>

definition reimport :: "editor \<Rightarrow> editor \<Rightarrow> string \<Rightarrow> editor" where
  "reimport s0 s stamp = importJSON s0 (Document (JSON_parse_stringify (exportJSON s stamp)))"

definition reread :: "component \<Rightarrow> component" where
  "reread c =
     \<lparr>c_id = c_id c, c_type = c_type c, c_x = json_number (c_x c), c_y = json_number (c_y c),
      c_angle = json_number (c_angle c),
      c_properties = map (\<lambda>(k, v). (k, json_number v)) (c_properties c)\<rparr>"

subsection \<open>The geometry resolver in the words of the specification\<close>

text \<open>
  \<open>world = position + R(rotationDeg) \<cdot> localOffset\<close>, with \<open>R\<close> the standard rotation
  matrix of the angle given in degrees, its rows as pairs.
\<close>

definition rotation_matrix :: "real \<Rightarrow> (real \<times> real) \<times> (real \<times> real)" where
  "rotation_matrix deg = (let a = deg * pi / 180 in ((cos a, - sin a), (sin a, cos a)))"

definition mat_vec :: "(real \<times> real) \<times> (real \<times> real) \<Rightarrow> real \<times> real \<Rightarrow> real \<times> real" where
  "mat_vec m v =
     (fst (fst m) * fst v + snd (fst m) * snd v, fst (snd m) * fst v + snd (snd m) * snd v)"

definition worldPosition_spec :: "real \<times> real \<Rightarrow> real \<Rightarrow> real \<times> real \<Rightarrow> real \<times> real" where
  "worldPosition_spec pos deg off =
     (fst pos + fst (mat_vec (rotation_matrix deg) off),
      snd pos + snd (mat_vec (rotation_matrix deg) off))"

subsection \<open>Sample states\<close>

definition two_components :: editor where
  "two_components =
     initial_editor\<lparr>components :=
        [\<lparr>c_id = 1, c_type = ''laser'', c_x = JNum 120, c_y = JNum 120, c_angle = JNum 0,
          c_properties = getDefaultProperties ''laser''\<rparr>,
         \<lparr>c_id = 2, c_type = ''photodetector'', c_x = JNum 300, c_y = JNum 120, c_angle = JNum 0,
          c_properties = getDefaultProperties ''photodetector''\<rparr>],
       connections :=
        [\<lparr>conn_id = 3, fromComp = 1, fromPort = ''out'', toComp = 2, toPort = ''in''\<rparr>]\<rparr>"

text \<open>
  A laser and a detector are added (both land on (120, 120)); the mouse goes down on the
  laser's output port and up on the detector's input port.
\<close>

definition demo_events :: "event list" where
  "demo_events =
     [AddComponent 1 ''laser'', AddComponent 2 ''photodetector'',
      CanvasMouseDown 0 145 120, MouseMove 110 120, MouseUp 100 120 3]"

text \<open>
  The laser is selected by a click on its centre; the same drag begins, but the mouse is
  released outside the canvas (no handler runs, the pending connection stays); the laser is
  deleted with the Delete button of the panel; the mouse is then released on the detector's
  input port.
\<close>

definition stale_drag_events :: "event list" where
  "stale_drag_events =
     [AddComponent 1 ''laser'', AddComponent 2 ''photodetector'',
      CanvasMouseDown 0 120 120, MouseUp 120 120 4,
      CanvasMouseDown 0 145 120, DeleteComponent 1, MouseUp 100 120 3]"

text \<open>
  A laser is added and selected by a click on its centre, and its Position X field is
  cleared: the handler passes \<^verbatim>\<open>parseFloat('')\<close>, which is \<^verbatim>\<open>NaN\<close>, to
  \<open>updateComponent\<close>.
\<close>

definition cleared_field_events :: "event list" where
  "cleared_field_events =
     [AddComponent 1 ''laser'', CanvasMouseDown 0 120 120, MouseUp 120 120 2,
      UpdateComponent 1 \<lparr>u_x = Some JNaN, u_y = None, u_angle = None\<rparr>]"

definition cleared_field :: editor where
  "cleared_field = run initial_editor cleared_field_events"



text \<open>A document whose only connection leaves an input port for a component that is absent.\<close>

definition stray_document :: setup_doc where
  "stray_document =
     \<lparr>doc_version = ''1.0'', doc_timestamp = ''2025-10-30T12:00:00Z'',
      doc_components =
        [\<lparr>dc_id = 1, dc_type = ''mirror'', dc_position = \<lparr>pos_x = JNum 120, pos_y = JNum 120\<rparr>,
          dc_rotation = JNum 0, dc_properties = getDefaultProperties ''mirror''\<rparr>],
      doc_connections =
        Some [\<lparr>dn_id = 2, dn_from = \<lparr>e_componentId = 1, e_port = ''in''\<rparr>,
               dn_to = \<lparr>e_componentId = 5, e_port = ''in''\<rparr>\<rparr>],
      doc_simulation = None, doc_results = None\<rparr>"

section \<open>The simulation engine\<close>

text \<open>
  The engine (the service behind \<^verbatim>\<open>/api/simulate\<close>, \<^verbatim>\<open>backend/main.py\<close> in the
  project layout) is not among the source files. Every definition of this section is modelled
  from the specification, sections 3 and 4. What the specification names without fixing is a
  field of the record \<open>engine\<close>.
\<close>

subsection \<open>Data model\<close>

text \<open>
  Modelled from the spec: the engine's data model (section 3), whose declarations are missing:
  the enum of kinds, components, connections, the graph, termination reasons and rays.
\<close>

datatype kind = Source | Mirror | Beamsplitter | Lens | Detector

text \<open>
  Modelled from the spec: the properties of a component (section 3), a kind-specific mapping
  of named floats; one constructor per kind, holding the required properties of that kind in
  the order section 3 lists them.
\<close>

datatype properties =
    SourceProps (wavelengthNm_of: real) (power_of: real)
  | MirrorProps (reflectivity_of: real) (radiusOfCurvature_of: real)
  | BeamsplitterProps (reflectivity_of: real) (transmissivity_of: real)
  | LensProps (focalLength_of: real)
  | DetectorProps (sensitivity_of: real)

fun kind_of :: "properties \<Rightarrow> kind" where
  "kind_of (SourceProps w p) = Source"
| "kind_of (MirrorProps r c) = Mirror"
| "kind_of (BeamsplitterProps r t) = Beamsplitter"
| "kind_of (LensProps f) = Lens"
| "kind_of (DetectorProps s) = Detector"

record optical_component =
  oc_id :: int
  oc_properties :: properties
  oc_position :: "real \<times> real"
  oc_rotationDeg :: real

record optical_connection =
  fromComponentId :: int
  fromPortId :: string
  toComponentId :: int
  toPortId :: string

record graph =
  g_components :: "optical_component list"
  g_connections :: "optical_connection list"

datatype termination_reason = MaxBounces | Attenuated | Absorbed | OpenEnd | Degenerate

record ray =
  originComponentId :: int
  wavelengthNm :: real
  intensity :: real
  path :: "(real \<times> real) list"
  bounceCount :: nat
  terminated :: bool
  terminationReason :: "termination_reason option"

text \<open>
  Modelled from the spec: the constants and tables of the engine, which sections 4.3 and 4.4
  name without fixing them. \<open>maxBounces\<close>
  (default 50) and \<open>epsilon\<close> (default 1e-4) are the two thresholds; \<open>coneRays\<close> is the
  number of secondary rays on each side of a source's primary beam; \<open>fresnel\<close> is the
  Fresnel-style factor of a mirror for an incoming ray; \<open>lensLoss\<close> is the fixed transmission
  loss of a lens; \<open>portOffset\<close> is the per-kind port schema; the remaining fields name the
  output ports of a source, of the two branches of a beam splitter and of a lens.
\<close>

record engine =
  maxBounces :: nat
  epsilon :: real
  coneRays :: nat
  fresnel :: "optical_component \<Rightarrow> ray \<Rightarrow> real"
  lensLoss :: real
  portOffset :: "kind \<Rightarrow> string \<Rightarrow> real \<times> real"
  sourceOut :: string
  reflectedOut :: string
  transmittedOut :: string
  lensOut :: string

subsection \<open>Validator: ranges of the properties\<close>

text \<open>
  Modelled from the spec: the property ranges that the validator \<open>buildGraph\<close> checks (section
  4.1): reflectivity, transmissivity and sensitivity lie in [0, 1], focalLength is not 0, power
  is not negative.
\<close>

fun valid_properties :: "properties \<Rightarrow> bool" where
  "valid_properties (SourceProps w p) = (0 \<le> p)"
| "valid_properties (MirrorProps r c) = (0 \<le> r \<and> r \<le> 1)"
| "valid_properties (BeamsplitterProps r t) = (0 \<le> r \<and> r \<le> 1 \<and> 0 \<le> t \<and> t \<le> 1)"
| "valid_properties (LensProps f) = (f \<noteq> 0)"
| "valid_properties (DetectorProps s) = (0 \<le> s \<and> s \<le> 1)"

subsection \<open>Geometry resolver\<close>

text \<open>
  Modelled from the spec: \<open>worldPosition\<close> of the geometry resolver (section 4.2),
  \<open>world = position + R(rotationDeg) \<cdot> localOffset\<close>, and the world position of a named port.
\<close>

definition worldPosition :: "optical_component \<Rightarrow> real \<times> real \<Rightarrow> real \<times> real" where
  "worldPosition c off = worldPosition_spec (oc_position c) (oc_rotationDeg c) off"

definition portPosition :: "engine \<Rightarrow> optical_component \<Rightarrow> string \<Rightarrow> real \<times> real" where
  "portPosition E c p = worldPosition c (portOffset E (kind_of (oc_properties c)) p)"

subsection \<open>Interaction model\<close>

text \<open>
  Modelled from the spec: the \<open>OutgoingRaySpec\<close> of section 4.3. Its direction is left out:
  the tracer walks connections, and a direction enters an intensity only through \<open>fresnel\<close>.
\<close>

record outgoing_spec =
  exitPortId :: string
  intensityFactor :: real
  out_wavelengthNm :: real

text \<open>
  Modelled from the spec: the factors of a beam splitter (section 4.3): when reflectivity +
  transmissivity exceeds 1, the sum is clamped to 1 and both factors are renormalized
  proportionally.
\<close>

definition splitter_factors :: "real \<Rightarrow> real \<Rightarrow> real \<times> real" where
  "splitter_factors r t = (if 1 < r + t then (r / (r + t), t / (r + t)) else (r, t))"

text \<open>
  Modelled from the spec: \<open>interact\<close> (section 4.3): no outgoing ray for a source (not an
  interaction target) or a detector (terminal); one on the \<open>out\<close> port of a mirror, attenuated by
  reflectivity and the Fresnel-style term; a reflected and a transmitted branch for a beam
  splitter; one for a lens, with the fixed transmission loss.
\<close>

definition interact :: "engine \<Rightarrow> optical_component \<Rightarrow> ray \<Rightarrow> outgoing_spec list" where
  "interact E c r =
     (case oc_properties c of
        SourceProps w p \<Rightarrow> []
      | MirrorProps rf roc \<Rightarrow>
          [\<lparr>exitPortId = ''out'', intensityFactor = rf * fresnel E c r,
            out_wavelengthNm = wavelengthNm r\<rparr>]
      | BeamsplitterProps rf tr \<Rightarrow>
          [\<lparr>exitPortId = reflectedOut E, intensityFactor = fst (splitter_factors rf tr),
            out_wavelengthNm = wavelengthNm r\<rparr>,
           \<lparr>exitPortId = transmittedOut E, intensityFactor = snd (splitter_factors rf tr),
            out_wavelengthNm = wavelengthNm r\<rparr>]
      | LensProps f \<Rightarrow>
          [\<lparr>exitPortId = lensOut E, intensityFactor = 1 - lensLoss E,
            out_wavelengthNm = wavelengthNm r\<rparr>]
      | DetectorProps s \<Rightarrow> [])"

subsection \<open>Ray tracer\<close>

text \<open>
  Modelled from the spec: the bookkeeping of the tracer (section 4.4): an entry
  \<open>(ray, currentComponentId, currentPortId)\<close> of the work queue, a ray standing on an output
  port; what a trace collects (finished rays, detector readings, warnings); setting the
  reason of a ray; the connections leaving a port; looking a component up by its id.
\<close>

type_synonym work_item = "ray \<times> int \<times> string"

record trace_result =
  finished :: "ray list"
  readings :: "(int \<times> real) list"
  trace_warnings :: "string list"

definition no_result :: trace_result where
  "no_result = \<lparr>finished = [], readings = [], trace_warnings = []\<rparr>"

definition merge_results :: "trace_result \<Rightarrow> trace_result \<Rightarrow> trace_result" where
  "merge_results a b =
     \<lparr>finished = finished a @ finished b, readings = readings a @ readings b,
      trace_warnings = trace_warnings a @ trace_warnings b\<rparr>"

definition terminate :: "ray \<Rightarrow> termination_reason \<Rightarrow> ray" where
  "terminate r why = r\<lparr>terminated := True, terminationReason := Some why\<rparr>"

definition ended :: "ray \<Rightarrow> termination_reason \<Rightarrow> trace_result" where
  "ended r why = \<lparr>finished = [terminate r why], readings = [], trace_warnings = []\<rparr>"

definition ended_degenerate :: "ray \<Rightarrow> trace_result" where
  "ended_degenerate r =
     \<lparr>finished = [terminate r Degenerate], readings = [], trace_warnings = [''degenerate ray'']\<rparr>"

definition outgoing :: "graph \<Rightarrow> int \<Rightarrow> string \<Rightarrow> optical_connection list" where
  "outgoing g c p = filter (\<lambda>k. fromComponentId k = c \<and> fromPortId k = p) (g_connections g)"

definition find_component :: "graph \<Rightarrow> int \<Rightarrow> optical_component option" where
  "find_component g i = find (\<lambda>c. oc_id c = i) (g_components g)"

text \<open>
  Modelled from the spec: the continuation rays of the tracer (section 4.4). The continuation
  of ray \<open>r\<close>, arrived at component
  \<open>d\<close>, for one outgoing spec: the new path segment is appended, the intensity is multiplied
  by the factor, the bounce count is incremented, and the ray is queued on the exit port.
\<close>

definition continuation :: "engine \<Rightarrow> optical_component \<Rightarrow> ray \<Rightarrow> outgoing_spec \<Rightarrow> work_item" where
  "continuation E d r sp =
     (r\<lparr>wavelengthNm := out_wavelengthNm sp,
        intensity := intensity r * intensityFactor sp,
        path := path r @ [portPosition E d (exitPortId sp)],
        bounceCount := bounceCount r + 1\<rparr>,
      oc_id d, exitPortId sp)"

text \<open>
  Modelled from the spec: the tracer following one connection (sections 4.3 and 4.4). Ray
  \<open>r\<close> follows connection \<open>k\<close>. At a
  detector it is absorbed and the reading intensity \<times> sensitivity is recorded under the
  detector's id; at a mirror, beam splitter or lens it continues once per outgoing spec. A
  connection to no component or into a source cannot occur in a validated graph; the ray then
  ends as degenerate, with a warning.
\<close>

definition arrive :: "engine \<Rightarrow> graph \<Rightarrow> ray \<Rightarrow> optical_connection \<Rightarrow> trace_result \<times> work_item list" where
  "arrive E g r k =
     (case find_component g (toComponentId k) of
        None \<Rightarrow> (ended_degenerate r, [])
      | Some d \<Rightarrow>
          (let r1 = r\<lparr>path := path r @ [portPosition E d (toPortId k)]\<rparr>
           in case oc_properties d of
                DetectorProps s \<Rightarrow>
                  (\<lparr>finished = [terminate r1 Absorbed],
                    readings = [(oc_id d, intensity r1 * s)],
                    trace_warnings = []\<rparr>, [])
              | SourceProps w p \<Rightarrow> (ended_degenerate r1, [])
              | _ \<Rightarrow> (no_result, map (continuation E d r1) (interact E d r1))))"

text \<open>
  Modelled from the spec: the body of the tracer's loop (section 4.4). One queued ray is taken
  up and the termination policy is applied in its order, the first applicable reason winning.
  The bounce cap is tested before a bounce is made: a ray that has made \<open>maxBounces\<close>
  interactions makes no further one, which would take its count past the maximum, and ends
  with reason maxBounces; so bounces are bounded as the glossary says, and every count stays
  within the maximum as section 8 says. Then a ray fainter than \<open>epsilon\<close> ends as
  attenuated, and a ray on a port with no outgoing connection as openEnd. Otherwise every
  matching connection is followed on its own (where a ray that reaches a detector is
  absorbed).
\<close>

definition process :: "engine \<Rightarrow> graph \<Rightarrow> work_item \<Rightarrow> trace_result \<times> work_item list" where
  "process E g item =
     (case item of (r, c, p) \<Rightarrow>
        if maxBounces E \<le> bounceCount r then (ended r MaxBounces, [])
        else if intensity r < epsilon E then (ended r Attenuated, [])
        else if outgoing g c p = [] then (ended r OpenEnd, [])
        else (foldl merge_results no_result (map (\<lambda>k. fst (arrive E g r k)) (outgoing g c p)),
              concat (map (\<lambda>k. snd (arrive E g r k)) (outgoing g c p))))"

text \<open>
  What is left of the bounce budget of a queued ray; it drops with every continuation,
  which is why the queue runs empty.
\<close>

definition budget :: "engine \<Rightarrow> work_item \<Rightarrow> nat" where
  "budget E item = maxBounces E - bounceCount (fst item)"

lemma budget_continuation:
  "budget E (continuation E d r sp) = maxBounces E - (bounceCount r + 1)"
  by (simp add: budget_def continuation_def)

lemma budget_arrive:
  assumes "item \<in> set (snd (arrive E g r k))"
  shows "budget E item = maxBounces E - (bounceCount r + 1)"
  using assms
  by (auto simp: arrive_def Let_def budget_continuation ended_degenerate_def
      split: option.splits properties.splits)

lemma budget_process:
  assumes "item' \<in> set (snd (process E g item))"
  shows "budget E item' < budget E item"
proof -
  obtain r c p where item: "item = (r, c, p)" by (cases item)
  from assms item have live: "bounceCount r < maxBounces E"
    by (auto simp: process_def split: if_splits)
  from assms item obtain k where "item' \<in> set (snd (arrive E g r k))"
    by (auto simp: process_def split: if_splits)
  then have "budget E item' = maxBounces E - (bounceCount r + 1)"
    by (rule budget_arrive)
  with live item show ?thesis by (simp add: budget_def)
qed

text \<open>
  Modelled from the spec: the tracer's work queue (sections 4.4 and 5), first in first out. The head is
  processed, its finished rays are recorded, and its continuations join the end of the queue.
\<close>

function propagate :: "engine \<Rightarrow> graph \<Rightarrow> work_item list \<Rightarrow> trace_result \<Rightarrow> trace_result" where
  "propagate E g [] acc = acc"
| "propagate E g (item # queue) acc =
     propagate E g (queue @ snd (process E g item)) (merge_results acc (fst (process E g item)))"
  by pat_completeness auto
termination
proof (relation "inv_image (mult less_than) (\<lambda>(E, g, queue, acc). mset (map (budget E) queue))")
  show "wf (inv_image (mult less_than) (\<lambda>(E, g, queue, acc). mset (map (budget E) queue)))"
    by (simp add: wf_mult)
next
  fix E :: engine and g item queue and acc :: trace_result
  have "(mset (map (budget E) queue) + mset (map (budget E) (snd (process E g item))),
         mset (map (budget E) queue) + {#budget E item#}) \<in> mult less_than"
    by (rule one_step_implies_mult) (auto dest: budget_process)
  then show "((E, g, queue @ snd (process E g item), merge_results acc (fst (process E g item))),
              (E, g, item # queue, acc))
             \<in> inv_image (mult less_than) (\<lambda>(E, g, queue, acc). mset (map (budget E) queue))"
    by simp
qed

text \<open>
  Modelled from the spec: the seeding of a trace (section 4.3, source). A source emits its primary beam and
  \<open>coneRays\<close> secondary rays on each side of it, each with intensity = power and with the
  source's wavelength, or the override of a sweep.
\<close>

definition emission :: "engine \<Rightarrow> real option \<Rightarrow> optical_component \<Rightarrow> work_item list" where
  "emission E ov c =
     (case oc_properties c of
        SourceProps w p \<Rightarrow>
          replicate (1 + 2 * coneRays E)
            (\<lparr>originComponentId = oc_id c,
              wavelengthNm = (case ov of Some v \<Rightarrow> v | None \<Rightarrow> w),
              intensity = p,
              path = [portPosition E c (sourceOut E)],
              bounceCount = 0,
              terminated = False,
              terminationReason = None\<rparr>,
             oc_id c, sourceOut E)
      | _ \<Rightarrow> [])"

definition seeds :: "engine \<Rightarrow> graph \<Rightarrow> real option \<Rightarrow> work_item list" where
  "seeds E g ov = concat (map (emission E ov) (g_components g))"

text \<open>
  Modelled from the spec: \<open>trace(graph, wavelengthOverride?)\<close> (section 4.4): the queue is
  seeded from every source and run until it is empty.
\<close>

definition trace_all :: "engine \<Rightarrow> graph \<Rightarrow> real option \<Rightarrow> trace_result" where
  "trace_all E g ov = propagate E g (seeds E g ov) no_result"

definition trace :: "engine \<Rightarrow> graph \<Rightarrow> real option \<Rightarrow> ray list" where
  "trace E g ov = finished (trace_all E g ov)"

subsection \<open>Spectral sweep\<close>

text \<open>
  Modelled from the spec: the sweep configuration \<open>{startNm, stopNm, points}\<close> and an entry
  \<open>{wavelengthNm, perDetectorIntensity}\<close> of a sweep (section 4.5).
\<close>

record sweep_request =
  startNm :: real
  stopNm :: real
  n_points :: nat

record sweep_entry =
  entry_wavelengthNm :: real
  perDetectorIntensity :: "(int \<times> real) list"

text \<open>
  Modelled from the spec: the sampling of a sweep (section 4.5): \<open>points\<close> wavelengths
  linearly spaced over
  \<open>[startNm, stopNm]\<close>, both ends included when \<open>points \<ge> 2\<close>; a single point samples the
  midpoint.
\<close>

definition sample_wavelengths :: "sweep_request \<Rightarrow> real list" where
  "sample_wavelengths q =
     (if n_points q = 1 then [(startNm q + stopNm q) / 2]
      else map (\<lambda>i. startNm q + real i * ((stopNm q - startNm q) / real (n_points q - 1)))
               [0 ..< n_points q])"

text \<open>
  Modelled from the spec: \<open>sweep\<close> (section 4.5): one full trace per sampled wavelength, which
  overrides the wavelength of every source; the readings of the detectors are collected.
\<close>

definition sweep :: "engine \<Rightarrow> graph \<Rightarrow> sweep_request \<Rightarrow> sweep_entry list" where
  "sweep E g q =
     map (\<lambda>w. \<lparr>entry_wavelengthNm = w, perDetectorIntensity = readings (trace_all E g (Some w))\<rparr>)
         (sample_wavelengths q)"

subsection \<open>Statistics\<close>

text \<open>
  Modelled from the spec: the statistics record and the length of a path (section 4.6), the
  sum of the Euclidean distances of consecutive points.
\<close>

record statistics =
  totalRays :: nat
  totalPathLength :: real
  averageIntensity :: real
  totalInteractions :: nat

fun path_length :: "(real \<times> real) list \<Rightarrow> real" where
  "path_length (a # b # ps) =
     sqrt ((fst b - fst a) ^ 2 + (snd b - snd a) ^ 2) + path_length (b # ps)"
| "path_length ps = 0"

text \<open>
  Modelled from the spec: the division of the engine's mean (section 4.6), which faults on
  the divisor 0, and the test for an absorbed ray.
\<close>

datatype fault = DivisionFault

definition divide :: "real \<Rightarrow> nat \<Rightarrow> fault + real" where
  "divide s n = (if n = 0 then Inl DivisionFault else Inr (s / real n))"

definition is_absorbed :: "ray \<Rightarrow> bool" where
  "is_absorbed r = (terminationReason r = Some Absorbed)"

definition no_absorbed_warning :: string where
  "no_absorbed_warning = ''no absorbed rays: averageIntensity reported as 0''"

text \<open>
  Modelled from the spec: \<open>aggregate(allRays)\<close> (section 4.6). The mean is taken over the
  absorbed rays; without any, 0 is reported together with a warning.
\<close>

definition aggregate :: "ray list \<Rightarrow> fault + statistics \<times> string list" where
  "aggregate rs =
     (let hits = filter is_absorbed rs;
          counted = \<lparr>totalRays = length (filter terminated rs),
                     totalPathLength = sum_list (map (\<lambda>r. path_length (path r)) rs),
                     averageIntensity = 0,
                     totalInteractions = sum_list (map bounceCount rs)\<rparr>
      in if hits = [] then Inr (counted, [no_absorbed_warning])
         else case divide (sum_list (map intensity hits)) (length hits) of
                Inl e \<Rightarrow> Inl e
              | Inr mean \<Rightarrow> Inr (counted\<lparr>averageIntensity := mean\<rparr>, []))"

subsection \<open>Sample graphs\<close>

definition demo_engine :: engine where
  "demo_engine =
     \<lparr>maxBounces = 3, epsilon = 1 / 10000, coneRays = 0,
      fresnel = (\<lambda>c r. 1), lensLoss = 1 / 50,
      portOffset = (\<lambda>k p. if p = ''in'' then (- 20, 0) else (20, 0)),
      sourceOut = ''out'', reflectedOut = ''out2'', transmittedOut = ''out1'', lensOut = ''out''\<rparr>"

definition node :: "int \<Rightarrow> properties \<Rightarrow> real \<Rightarrow> real \<Rightarrow> optical_component" where
  "node i ps px py = \<lparr>oc_id = i, oc_properties = ps, oc_position = (px, py), oc_rotationDeg = 0\<rparr>"

definition link :: "int \<Rightarrow> string \<Rightarrow> int \<Rightarrow> string \<Rightarrow> optical_connection" where
  "link a p b q = \<lparr>fromComponentId = a, fromPortId = p, toComponentId = b, toPortId = q\<rparr>"

text \<open>A source feeding two mirrors that face each other: the connections form a cycle.\<close>

definition ring :: graph where
  "ring =
     \<lparr>g_components =
        [node 1 (SourceProps 550 1) 0 0,
         node 2 (MirrorProps (1 / 2) 1000) 100 0,
         node 3 (MirrorProps (1 / 2) 1000) 200 0],
      g_connections =
        [link 1 ''out'' 2 ''in'', link 2 ''out'' 3 ''in'', link 3 ''out'' 2 ''in'']\<rparr>"

definition splitter :: graph where
  "splitter =
     \<lparr>g_components =
        [node 1 (SourceProps 550 1) 0 0,
         node 2 (BeamsplitterProps (4 / 5) (3 / 5)) 100 0,
         node 3 (DetectorProps 1) 200 0,
         node 4 (DetectorProps (1 / 2)) 100 100],
      g_connections =
        [link 1 ''out'' 2 ''in'', link 2 ''out1'' 3 ''in'', link 2 ''out2'' 4 ''in'']\<rparr>"

definition three_rays :: "ray list" where
  "three_rays =
     [\<lparr>originComponentId = 1, wavelengthNm = 550, intensity = 1 / 2, path = [(0, 0), (3, 4)],
       bounceCount = 1, terminated = True, terminationReason = Some Absorbed\<rparr>,
      \<lparr>originComponentId = 1, wavelengthNm = 550, intensity = 1 / 8, path = [(0, 0)],
       bounceCount = 3, terminated = True, terminationReason = Some MaxBounces\<rparr>,
      \<lparr>originComponentId = 1, wavelengthNm = 550, intensity = 1 / 4, path = [(0, 0), (3, 4)],
       bounceCount = 2, terminated = True, terminationReason = Some Absorbed\<rparr>]"

text \<open>A finished ray is the queued ray, moved along a connection or not, with its reason set.\<close>

definition ends :: "ray \<Rightarrow> ray \<Rightarrow> bool" where
  "ends r x =
     (terminated x \<and> terminationReason x \<noteq> None \<and> intensity x = intensity r \<and>
      bounceCount x = bounceCount r \<and> originComponentId x = originComponentId r)"

section \<open>Properties of the editor\<close>

lemmas js_simps = js_add_def js_sub_def js_mul_def js_div_const_def js_cos_def js_sin_def
  js_square_def js_sqrt_def js_lt_def js_lift1_def js_lift2_def js_round_def js_inf_def

subsection \<open>Ports in world coordinates\<close>

lemma rotation_keeps_length:
  fixes u v k l :: real
  shows "(u * k - v * l) ^ 2 + (u * l + v * k) ^ 2 = (u ^ 2 + v ^ 2) * (l ^ 2 + k ^ 2)"
  by (simp add: power2_eq_square algebra_simps)

text \<open>
  C1. For a component whose position and angle are numbers (\<open>cx\<close>, \<open>cy\<close>, \<open>theta\<close>
  degrees) and a port with local offset \<open>(dx, dy)\<close>, \<open>getPortWorldPosition\<close> returns the
  point \<open>(cx + dx cos a - dy sin a, cy + dx sin a + dy cos a)\<close> with \<open>a = theta \<pi> / 180\<close>,
  tagged with the port's id; this point is \<open>position + R(theta) \<cdot> offset\<close> for the standard
  rotation matrix \<open>R\<close>, and it lies as far from the component's position as the offset is
  long.
\<close>

theorem getPortWorldPosition_rotation:
  assumes "to_number (c_x c) = Some cx" and "to_number (c_y c) = Some cy"
    and "to_number (c_angle c) = Some theta"
  shows "getPortWorldPosition c p =
           \<lparr>w_x = JNum (cx + port_x p * cos (theta * pi / 180) - port_y p * sin (theta * pi / 180)),
            w_y = JNum (cy + port_x p * sin (theta * pi / 180) + port_y p * cos (theta * pi / 180)),
            w_portId = port_id p\<rparr>
       \<and> (cx + port_x p * cos (theta * pi / 180) - port_y p * sin (theta * pi / 180),
          cy + port_x p * sin (theta * pi / 180) + port_y p * cos (theta * pi / 180))
           = worldPosition_spec (cx, cy) theta (port_x p, port_y p)
       \<and> (fst (worldPosition_spec (cx, cy) theta (port_x p, port_y p)) - cx) ^ 2
          + (snd (worldPosition_spec (cx, cy) theta (port_x p, port_y p)) - cy) ^ 2
           = port_x p ^ 2 + port_y p ^ 2"
proof -
  let ?a = "theta * pi / 180"
  have rigid:
    "(port_x p * cos ?a - port_y p * sin ?a) ^ 2 + (port_x p * sin ?a + port_y p * cos ?a) ^ 2
       = port_x p ^ 2 + port_y p ^ 2"
    using rotation_keeps_length [of "port_x p" "cos ?a" "port_y p" "sin ?a"] by simp
  have pos: "getPortWorldPosition c p =
           \<lparr>w_x = JNum (cx + port_x p * cos ?a - port_y p * sin ?a),
            w_y = JNum (cy + port_x p * sin ?a + port_y p * cos ?a),
            w_portId = port_id p\<rparr>"
    using assms by (simp add: getPortWorldPosition_def Let_def js_simps)
  have spec: "worldPosition_spec (cx, cy) theta (port_x p, port_y p)
       = (cx + port_x p * cos ?a - port_y p * sin ?a, cy + port_x p * sin ?a + port_y p * cos ?a)"
    by (simp add: worldPosition_spec_def rotation_matrix_def mat_vec_def Let_def)
  have d1: "fst (worldPosition_spec (cx, cy) theta (port_x p, port_y p)) - cx
              = port_x p * cos ?a - port_y p * sin ?a"
    by (simp add: spec)
  have d2: "snd (worldPosition_spec (cx, cy) theta (port_x p, port_y p)) - cy
              = port_x p * sin ?a + port_y p * cos ?a"
    by (simp add: spec)
  show ?thesis
    unfolding d1 d2 rigid using pos spec by simp
qed

theorem getPortWorldPosition_rotation_witness:
  "getPortWorldPosition
     \<lparr>c_id = 1, c_type = ''mirror'', c_x = JNum 120, c_y = JNum 60, c_angle = JNum 90,
      c_properties = []\<rparr>
     (mk_port ''out'' 0 (- 20) ''output'')
     = \<lparr>w_x = JNum 140, w_y = JNum 60, w_portId = ''out''\<rparr>"
  using getPortWorldPosition_rotation
    [of "\<lparr>c_id = 1, c_type = ''mirror'', c_x = JNum 120, c_y = JNum 60, c_angle = JNum 90,
          c_properties = []\<rparr>" 120 60 90 "mk_port ''out'' 0 (- 20) ''output''"]
  by (simp add: mk_port_def)

subsection \<open>Component kinds and their default properties\<close>

text \<open>
  C2, as amended. The keys of \<open>COMPONENT_TYPES\<close> are, in order, laser, mirror,
  beamsplitter, lens and photodetector; these five names are exactly the types with a
  port schema, and exactly the types for which \<open>getDefaultProperties\<close> gives properties.
\<close>

theorem component_kinds:
  "map fst COMPONENT_TYPES = [''laser'', ''mirror'', ''beamsplitter'', ''lens'', ''photodetector'']
   \<and> {t. component_type_of t \<noteq> None} = {''laser'', ''mirror'', ''beamsplitter'', ''lens'', ''photodetector''}
   \<and> {t. getDefaultProperties t \<noteq> []} = {''laser'', ''mirror'', ''beamsplitter'', ''lens'', ''photodetector''}"
  by (auto simp: COMPONENT_TYPES_def component_type_of_def getDefaultProperties_def split: if_splits)

text \<open>
  C2 as stated fails: the set of keys is not \<open>{source, mirror, beamsplitter, lens, detector}\<close>,
  since it contains laser.
\<close>

theorem component_kinds_counterexample:
  "set (map fst COMPONENT_TYPES) \<noteq> {''source'', ''mirror'', ''beamsplitter'', ''lens'', ''detector''}"
proof
  assume eq: "set (map fst COMPONENT_TYPES) = {''source'', ''mirror'', ''beamsplitter'', ''lens'', ''detector''}"
  have "''laser'' \<in> set (map fst COMPONENT_TYPES)"
    by (simp add: COMPONENT_TYPES_def)
  with eq have "''laser'' \<in> {''source'', ''mirror'', ''beamsplitter'', ''lens'', ''detector''}"
    by (rule subst)
  then show False by simp
qed

text \<open>
  C3, as amended. The component \<open>addComponent\<close> appends carries the default properties of
  its type, whose names are: laser: wavelength, power; mirror: reflectivity, roc;
  beamsplitter: reflectivity, transmissivity; lens: focalLength; photodetector: sensitivity.
\<close>

theorem default_property_names:
  "c_properties (last (components (addComponent s now t))) = getDefaultProperties t
   \<and> map fst (getDefaultProperties ''laser'') = [''wavelength'', ''power'']
   \<and> map fst (getDefaultProperties ''mirror'') = [''reflectivity'', ''roc'']
   \<and> map fst (getDefaultProperties ''beamsplitter'') = [''reflectivity'', ''transmissivity'']
   \<and> map fst (getDefaultProperties ''lens'') = [''focalLength'']
   \<and> map fst (getDefaultProperties ''photodetector'') = [''sensitivity'']"
  by (simp add: addComponent_def getDefaultProperties_def)

text \<open>
  C3 as stated fails: the property names of a new mirror are not
  \<open>{reflectivity, radiusOfCurvature}\<close>, since roc is among them.
\<close>

theorem default_property_names_counterexample:
  "set (map fst (getDefaultProperties ''mirror'')) \<noteq> {''reflectivity'', ''radiusOfCurvature''}"
proof
  assume eq: "set (map fst (getDefaultProperties ''mirror'')) = {''reflectivity'', ''radiusOfCurvature''}"
  have "''roc'' \<in> set (map fst (getDefaultProperties ''mirror''))"
    by (simp add: getDefaultProperties_def)
  with eq have "''roc'' \<in> {''reflectivity'', ''radiusOfCurvature''}"
    by (rule subst)
  then show False by simp
qed

subsection \<open>Deleting a component\<close>

lemma present_filter:
  "present cs j \<Longrightarrow> j \<noteq> i \<Longrightarrow> present (filter (\<lambda>c. c_id c \<noteq> i) cs) j"
  unfolding present_def list_ex_iff by auto

text \<open>
  C10. After \<open>deleteComponent s i\<close> no connection has \<open>i\<close> as its from-component or its
  to-component, and if every connection of \<open>s\<close> named present components, so does every
  connection of the new state.
\<close>

theorem deleteComponent_no_dangling:
  "list_all (\<lambda>c. fromComp c \<noteq> i \<and> toComp c \<noteq> i) (connections (deleteComponent s i))
   \<and> (no_dangling s \<longrightarrow> no_dangling (deleteComponent s i))"
  by (auto simp: deleteComponent_def no_dangling_def list_all_iff intro: present_filter)

theorem deleteComponent_no_dangling_witness:
  "no_dangling two_components
   \<and> connections (deleteComponent two_components 2) = []
   \<and> map c_id (components (deleteComponent two_components 2)) = [1]
   \<and> no_dangling (deleteComponent two_components 2)"
  using deleteComponent_no_dangling [of 2 two_components]
  by (simp add: no_dangling_def present_def deleteComponent_def two_components_def initial_editor_def)

subsection \<open>Connections made with the mouse\<close>

lemma has_port_iff:
  "has_port cs i p r \<longleftrightarrow>
     (\<exists>c \<in> set cs. c_id c = i \<and>
        (\<exists>t. component_type_of (c_type c) = Some t \<and>
             (\<exists>q \<in> set (ct_ports t). port_id q = p \<and> port_type q = r)))"
  unfolding has_port_def list_ex_iff
  by (rule bex_cong [OF refl]) (auto split: option.splits)

lemma find_Some_set: "find P xs = Some x \<Longrightarrow> x \<in> set xs \<and> P x"
  by (induction xs) (auto split: if_splits)

lemma findPortAtPosition_in_Some:
  "findPortAtPosition_in cs mx my = Inr (Some q) \<Longrightarrow>
     pi_component q \<in> set cs \<and>
     (\<exists>t. component_type_of (c_type (pi_component q)) = Some t \<and> pi_port q \<in> set (ct_ports t))"
  by (induction cs) (auto split: option.splits dest: find_Some_set)

lemma found_has_port:
  "findPortAtPosition s mx my = Inr (Some q) \<Longrightarrow>
     has_port (components s) (c_id (pi_component q)) (port_id (pi_port q)) (port_type (pi_port q))"
  unfolding findPortAtPosition_def has_port_iff
  by (drule findPortAtPosition_in_Some) blast

lemma has_port_map:
  assumes "\<And>c. c_id (f c) = c_id c" and "\<And>c. c_type (f c) = c_type c"
  shows "has_port (map f cs) i p r = has_port cs i p r"
  by (simp add: has_port_def list_ex_iff assms)

lemma has_port_append: "has_port cs i p r \<Longrightarrow> has_port (cs @ ds) i p r"
  by (auto simp: has_port_def list_ex_iff)

lemma has_port_filter:
  "has_port cs j p r \<Longrightarrow> j \<noteq> i \<Longrightarrow> has_port (filter (\<lambda>c. c_id c \<noteq> i) cs) j p r"
  by (auto simp: has_port_def list_ex_iff)

lemma components_updateComponent:
  "components (updateComponent s i u) =
     map (\<lambda>c. if c_id c = i then apply_updates c u else c) (components s)"
  by (simp add: updateComponent_def)

lemma has_port_updateComponent:
  "has_port (components (updateComponent s i u)) j p r = has_port (components s) j p r"
  unfolding components_updateComponent
  by (rule has_port_map) (simp_all add: apply_updates_def)

lemma has_port_updateProperty:
  "has_port (components (updateProperty s i k v)) j p r = has_port (components s) j p r"
  unfolding updateProperty_def
  by (simp, rule has_port_map) simp_all

lemma editor_inv_iff:
  "editor_inv s \<longleftrightarrow>
     (\<forall>n \<in> set (connections s). connection_ok (components s) n) \<and>
     (\<forall>k. connecting s = Some k \<longrightarrow>
          has_port (components s) (k_fromComp k) (k_fromPort k) ''output'')"
  by (auto simp: editor_inv_def connections_ok_def pending_ok_def list_all_iff split: option.splits)

lemma inv_addComponent: "editor_inv s \<Longrightarrow> editor_inv (addComponent s now t)"
  by (auto simp: editor_inv_iff addComponent_def connection_ok_def intro: has_port_append)

lemma inv_deleteComponent:
  "editor_inv s \<Longrightarrow> safe_event s (DeleteComponent i) \<Longrightarrow> editor_inv (deleteComponent s i)"
  by (auto simp: editor_inv_iff deleteComponent_def connection_ok_def safe_event_def
      intro: has_port_filter)

lemma inv_updateComponent: "editor_inv s \<Longrightarrow> editor_inv (updateComponent s i u)"
  unfolding editor_inv_iff connection_ok_def has_port_updateComponent
  by (simp add: updateComponent_def)

lemma inv_updateProperty: "editor_inv s \<Longrightarrow> editor_inv (updateProperty s i k v)"
  unfolding editor_inv_iff connection_ok_def has_port_updateProperty
  by (simp add: updateProperty_def)

lemma inv_deleteConnection: "editor_inv s \<Longrightarrow> editor_inv (deleteConnection s i)"
  by (auto simp: editor_inv_iff deleteConnection_def)

text \<open>A pending connection is only ever recorded on an output port.\<close>

lemma inv_handleMouseDown: "editor_inv s \<Longrightarrow> editor_inv (state_of (handleMouseDown s b mx my i))"
  by (auto simp: editor_inv_iff handleMouseDown_def Let_def split: sum.splits option.splits
      dest: found_has_port)

lemma inv_canvasMouseDown: "editor_inv s \<Longrightarrow> editor_inv (state_of (canvasMouseDown s b mx my))"
  unfolding canvasMouseDown_def
  by (auto split: option.splits intro: inv_handleMouseDown) (simp add: editor_inv_iff)

lemma inv_handleMouseMove:
  assumes "editor_inv s"
  shows "editor_inv (state_of (handleMouseMove s mx my))"
proof (cases "findPortAtPosition s mx my")
  case (Inl e)
  then show ?thesis using assms by (simp add: handleMouseMove_def)
next
  case (Inr h)
  have i1: "editor_inv (s\<lparr>hoveredPort := h\<rparr>)"
    using assms by (simp add: editor_inv_iff)
  show ?thesis
  proof (cases "connecting s")
    case (Some k)
    then show ?thesis
      using Inr i1 by (simp add: handleMouseMove_def Let_def editor_inv_iff)
  next
    case None
    then show ?thesis
      using Inr i1 inv_updateComponent [OF i1]
      by (cases "dragging s") (simp_all add: handleMouseMove_def Let_def)
  qed
qed

text \<open>A connection is only ever appended when the mouse is released on an input port.\<close>

lemma inv_handleMouseUp: "editor_inv s \<Longrightarrow> editor_inv (state_of (handleMouseUp s mx my now))"
  by (auto simp: editor_inv_iff handleMouseUp_def Let_def connection_ok_def
      split: sum.splits option.splits dest: found_has_port)

lemma step_keeps_inv:
  assumes "editor_inv s" and "safe_event s e"
  shows "editor_inv (step s e)"
  using assms
  by (cases e)
    (simp_all add: inv_addComponent inv_deleteComponent inv_updateComponent inv_updateProperty
      inv_deleteConnection inv_canvasMouseDown inv_handleMouseMove inv_handleMouseUp,
      simp add: safe_event_def)

lemma editor_inv_initial: "editor_inv initial_editor"
  by (simp add: editor_inv_iff initial_editor_def)

lemma run_keeps_inv: "editor_inv s \<Longrightarrow> safe_run s es \<Longrightarrow> editor_inv (run s es)"
proof (induction es arbitrary: s)
  case Nil
  then show ?case by simp
next
  case (Cons e es)
  from Cons.prems have "editor_inv (step s e)"
    using step_keeps_inv [of s e] by simp
  with Cons show ?case by simp
qed

lemma sqrt_lt_iff: "0 \<le> a \<Longrightarrow> 0 < b \<Longrightarrow> (sqrt a < b) = (a < b ^ 2)"
  by (metis real_sqrt_less_iff real_sqrt_abs abs_of_pos real_sqrt_power)

text \<open>
  C4, as amended. In a session that starts from the empty editor, imports no document and
  deletes no component while a connection dragged from one of its ports is pending, every
  connection in the list leaves a port of role output of the type of a present component with
  the from-id, and enters a port of role input of the type of a present component with the
  to-id; likewise the pending connection always starts on such an output port. (A connection
  is appended by \<open>handleMouseUp\<close> alone, from the port \<open>handleMouseDown\<close> recorded to the input
  port under the mouse.)
\<close>

theorem connections_well_formed:
  assumes "safe_run initial_editor es"
  shows "connections_ok (run initial_editor es) \<and> pending_ok (run initial_editor es)"
  using run_keeps_inv [OF editor_inv_initial assms] by (simp add: editor_inv_def)

lemmas editor_eval = initial_editor_def addComponent_def deleteComponent_def updateComponent_def
  apply_updates_def canvasMouseDown_def near_centre_def handleMouseDown_def handleMouseMove_def
  handleMouseUp_def findPortAtPosition_def getDefaultProperties_def component_type_of_def
  COMPONENT_TYPES_def mk_port_def port_hit_def getPortWorldPosition_def js_simps sqrt_lt_iff
  PORT_RADIUS_def Let_def same_ends_def enabled_def selectedComponent_def

lemma demo_run:
  "enabled_run initial_editor demo_events
   \<and> connections (run initial_editor demo_events) =
       [\<lparr>conn_id = 3, fromComp = 1, fromPort = ''out'', toComp = 2, toPort = ''in''\<rparr>]"
  by (simp add: demo_events_def editor_eval)

theorem connections_well_formed_witness:
  "safe_run initial_editor demo_events
   \<and> enabled_run initial_editor demo_events
   \<and> connections (run initial_editor demo_events) =
       [\<lparr>conn_id = 3, fromComp = 1, fromPort = ''out'', toComp = 2, toPort = ''in''\<rparr>]
   \<and> connections_ok (run initial_editor demo_events)"
proof -
  have safe: "safe_run initial_editor demo_events"
    by (simp add: demo_events_def safe_event_def)
  show ?thesis
    using safe connections_well_formed [OF safe] demo_run by simp
qed

text \<open>
  The side condition on deletions is needed: a pending connection outlives the deletion of
  its component, and the next release on an input port appends a connection from a component
  that is gone.
\<close>

lemma stale_drag_dangles:
  "enabled_run initial_editor stale_drag_events
   \<and> connections (run initial_editor stale_drag_events) =
       [\<lparr>conn_id = 3, fromComp = 1, fromPort = ''out'', toComp = 2, toPort = ''in''\<rparr>]
   \<and> map c_id (components (run initial_editor stale_drag_events)) = [2]
   \<and> \<not> safe_run initial_editor stale_drag_events
   \<and> \<not> no_dangling (run initial_editor stale_drag_events)"
  by (simp add: stale_drag_events_def editor_eval safe_event_def no_dangling_def present_def)

text \<open>
  C4 as stated fails: \<open>importJSON\<close> installs the connections of the document as they are, here
  one that leaves an input port for a component that is not there.
\<close>

theorem connections_well_formed_counterexample:
  "connections (importJSON initial_editor (Document stray_document)) =
     [\<lparr>conn_id = 2, fromComp = 1, fromPort = ''in'', toComp = 5, toPort = ''in''\<rparr>]
   \<and> \<not> has_port (components (importJSON initial_editor (Document stray_document))) 1 ''in'' ''output''
   \<and> \<not> connections_ok (importJSON initial_editor (Document stray_document))"
  by (simp add: importJSON_def stray_document_def initial_editor_def connections_ok_def
      connection_ok_def has_port_def component_type_of_def COMPONENT_TYPES_def mk_port_def)

subsection \<open>Export followed by import\<close>





lemma components_reimport: "components (reimport s0 s stamp) = map reread (components s)"
  by (simp add: reimport_def importJSON_def JSON_parse_stringify_def exportJSON_def json_component_def
      reread_def comp_def)





text \<open>
  The position and rotation fields of the panel pass \<^verbatim>\<open>parseFloat(e.target.value)\<close> on as it
  is, where \<open>updateProperty\<close> writes \<^verbatim>\<open>parseFloat(value) || 0\<close>: after the Position X field
  of the selected laser is cleared, its \<open>x\<close> is \<^verbatim>\<open>NaN\<close>, and an export followed by an import
  gives \<^verbatim>\<open>null\<close>; the same text in a property field gives 0.
\<close>

lemma cleared_field_reimport:
  "enabled_run initial_editor cleared_field_events
   \<and> map c_x (components cleared_field) = [JNaN]
   \<and> map c_x (components (reimport initial_editor cleared_field ''2025-10-30T12:00:00Z'')) = [JNull]
   \<and> map c_properties
         (components (updateProperty cleared_field 1 ''power'' JNaN))
       = [[(''wavelength'', JNum 550), (''power'', JNum 0)]]"
proof -
  have c: "components cleared_field =
      [\<lparr>c_id = 1, c_type = ''laser'', c_x = JNaN, c_y = JNum 120, c_angle = JNum 0,
        c_properties = [(''wavelength'', JNum 550), (''power'', JNum 1)]\<rparr>]"
    by (simp add: cleared_field_def cleared_field_events_def editor_eval)
  have e: "enabled_run initial_editor cleared_field_events"
    by (simp add: cleared_field_events_def editor_eval)
  show ?thesis
    using e by (simp add: c components_reimport reread_def updateProperty_def or_zero_def)
qed

section \<open>Properties of the engine\<close>

lemmas engine_defs = trace_def trace_all_def seeds_def emission_def node_def link_def
  process_def outgoing_def arrive_def find_component_def interact_def continuation_def
  ended_def ended_degenerate_def terminate_def no_result_def merge_results_def portPosition_def
  worldPosition_def worldPosition_spec_def rotation_matrix_def mat_vec_def splitter_factors_def Let_def

lemma finished_foldl:
  "finished (foldl merge_results a xs) = finished a @ concat (map finished xs)"
  by (induction xs arbitrary: a) (simp_all add: merge_results_def)

subsection \<open>Intensity\<close>

lemma splitter_factors_bounds:
  assumes "0 \<le> r" and "0 \<le> t" and "r \<le> 1" and "t \<le> 1"
  shows "0 \<le> fst (splitter_factors r t) \<and> fst (splitter_factors r t) \<le> 1
       \<and> 0 \<le> snd (splitter_factors r t) \<and> snd (splitter_factors r t) \<le> 1
       \<and> fst (splitter_factors r t) + snd (splitter_factors r t) \<le> 1"
proof (cases "1 < r + t")
  case True
  then have pos: "0 < r + t" by simp
  define a where "a = r / (r + t)"
  define b where "b = t / (r + t)"
  have "a + b = 1"
    using pos by (simp add: a_def b_def add_divide_distrib [symmetric])
  moreover have "0 \<le> a" and "0 \<le> b"
    using assms pos by (simp_all add: a_def b_def)
  ultimately have "0 \<le> a \<and> a \<le> 1 \<and> 0 \<le> b \<and> b \<le> 1 \<and> a + b \<le> 1"
    by linarith
  moreover have "splitter_factors r t = (a, b)"
    using True by (simp add: splitter_factors_def a_def b_def)
  ultimately show ?thesis by simp
next
  case False
  then show ?thesis using assms by (simp add: splitter_factors_def)
qed

lemma interact_factors:
  assumes "valid_properties (oc_properties c)"
    and "0 \<le> fresnel E c r \<and> fresnel E c r \<le> 1"
    and "0 \<le> lensLoss E \<and> lensLoss E \<le> 1"
  shows "(\<forall>sp \<in> set (interact E c r). 0 \<le> intensityFactor sp \<and> intensityFactor sp \<le> 1)
       \<and> 0 \<le> sum_list (map intensityFactor (interact E c r))
       \<and> sum_list (map intensityFactor (interact E c r)) \<le> 1"
proof (cases "oc_properties c")
  case (MirrorProps rf roc)
  then have "0 \<le> rf" and "rf \<le> 1" using assms(1) by simp_all
  then have "0 \<le> rf * fresnel E c r" and "rf * fresnel E c r \<le> 1"
    using assms(2) by (simp_all add: mult_le_one)
  then show ?thesis using MirrorProps by (simp add: interact_def)
next
  case (BeamsplitterProps rf tr)
  then have "0 \<le> rf" "0 \<le> tr" "rf \<le> 1" "tr \<le> 1" using assms(1) by simp_all
  from splitter_factors_bounds [OF this] show ?thesis
    using BeamsplitterProps by (simp add: interact_def)
qed (use assms in \<open>simp_all add: interact_def\<close>)

lemma sum_list_scaled: "sum_list (map (\<lambda>x. (k::real) * f x) xs) = k * sum_list (map f xs)"
  by (induction xs) (simp_all add: algebra_simps)

lemma continuation_intensity:
  "intensity (fst (continuation E d r sp)) = intensity r * intensityFactor sp"
  by (simp add: continuation_def)

lemma continuation_origin:
  "originComponentId (fst (continuation E d r sp)) = originComponentId r"
  by (simp add: continuation_def)

lemma interaction_bound:
  assumes "valid_properties (oc_properties c)"
    and "0 \<le> fresnel E c r \<and> fresnel E c r \<le> 1"
    and "0 \<le> lensLoss E \<and> lensLoss E \<le> 1"
    and "0 \<le> intensity r"
  shows "(\<forall>sp \<in> set (interact E c r).
            0 \<le> intensity (fst (continuation E c r sp)) \<and>
            intensity (fst (continuation E c r sp)) \<le> intensity r)
       \<and> sum_list (map (\<lambda>sp. intensity (fst (continuation E c r sp))) (interact E c r)) \<le> intensity r"
proof -
  note f = interact_factors [OF assms(1-3)]
  have each: "0 \<le> intensity r * intensityFactor sp \<and> intensity r * intensityFactor sp \<le> intensity r"
    if "sp \<in> set (interact E c r)" for sp
    using f that assms(4) by (simp add: mult_left_le)
  have "intensity r * sum_list (map intensityFactor (interact E c r)) \<le> intensity r"
    using f assms(4) by (simp add: mult_left_le)
  then show ?thesis
    using each by (simp add: continuation_intensity sum_list_scaled)
qed

subsection \<open>One step of the tracer\<close>

lemma ends_terminate: "ends r (terminate r why)"
  by (simp add: ends_def terminate_def)

lemma ends_terminate_moved: "ends r (terminate (r\<lparr>path := ps\<rparr>) why)"
  by (simp add: ends_def terminate_def)

lemma arrive_finished:
  assumes "x \<in> set (finished (fst (arrive E g r k)))"
  shows "ends r x"
  using assms
  by (auto simp: arrive_def Let_def ended_degenerate_def no_result_def ends_terminate
      ends_terminate_moved split: option.splits properties.splits)

lemma arrive_next:
  assumes "it \<in> set (snd (arrive E g r k))"
  shows "\<exists>d ps sp. d \<in> set (g_components g) \<and> sp \<in> set (interact E d (r\<lparr>path := ps\<rparr>))
            \<and> it = continuation E d (r\<lparr>path := ps\<rparr>) sp"
proof (cases "find_component g (toComponentId k)")
  case None
  with assms show ?thesis by (simp add: arrive_def)
next
  case (Some d)
  then have "d \<in> set (g_components g)"
    by (auto simp: find_component_def dest: find_Some_set)
  with assms Some show ?thesis
    by (cases "oc_properties d") (auto simp: arrive_def Let_def)
qed

lemma process_finished:
  assumes "x \<in> set (finished (fst (process E g (r, c, p))))"
  shows "ends r x"
  using assms
  by (auto simp: process_def ended_def ends_terminate finished_foldl no_result_def
      split: if_splits dest: arrive_finished)

lemma process_next:
  assumes "it \<in> set (snd (process E g (r, c, p)))"
  shows "bounceCount r < maxBounces E \<and>
         (\<exists>d ps sp. d \<in> set (g_components g) \<and> sp \<in> set (interact E d (r\<lparr>path := ps\<rparr>))
            \<and> it = continuation E d (r\<lparr>path := ps\<rparr>) sp)"
proof -
  from assms have live: "bounceCount r < maxBounces E"
    by (auto simp: process_def split: if_splits)
  from assms obtain k where "it \<in> set (snd (arrive E g r k))"
    by (auto simp: process_def split: if_splits)
  from arrive_next [OF this] live show ?thesis by blast
qed

lemma propagate_invariant:
  assumes "\<And>item. P item \<Longrightarrow>
             (\<forall>x \<in> set (finished (fst (process E g item))). Q x) \<and>
             (\<forall>it \<in> set (snd (process E g item)). P it)"
    and "\<forall>it \<in> set queue. P it"
    and "\<forall>x \<in> set (finished acc). Q x"
  shows "\<forall>x \<in> set (finished (propagate E g queue acc)). Q x"
  using assms
proof (induction E g queue acc rule: propagate.induct)
  case (1 E g acc)
  then show ?case by simp
next
  case (2 E g item queue acc)
  have here: "(\<forall>x \<in> set (finished (fst (process E g item))). Q x) \<and>
              (\<forall>it \<in> set (snd (process E g item)). P it)"
    using "2.prems"(1) [of item] "2.prems"(2) by simp
  have "\<forall>x \<in> set (finished (propagate E g (queue @ snd (process E g item))
                                (merge_results acc (fst (process E g item))))). Q x"
  proof (rule "2.IH")
    show "\<forall>it \<in> set (queue @ snd (process E g item)). P it"
      using here "2.prems"(2) by auto
    show "\<forall>x \<in> set (finished (merge_results acc (fst (process E g item)))). Q x"
      using here "2.prems"(3) by (auto simp: merge_results_def)
  qed (rule "2.prems"(1))
  then show ?case by simp
qed

lemma seeds_fresh:
  assumes "it \<in> set (seeds E g ov)"
  shows "bounceCount (fst it) = 0 \<and>
         (\<exists>c \<in> set (g_components g). \<exists>w p. oc_properties c = SourceProps w p \<and>
            originComponentId (fst it) = oc_id c \<and> intensity (fst it) = p)"
proof -
  from assms obtain c where c: "c \<in> set (g_components g)" and it: "it \<in> set (emission E ov c)"
    by (auto simp: seeds_def)
  show ?thesis
  proof (cases "oc_properties c")
    case (SourceProps w p)
    with it have "bounceCount (fst it) = 0 \<and> originComponentId (fst it) = oc_id c
        \<and> intensity (fst it) = p"
      by (auto simp: emission_def)
    with c SourceProps show ?thesis by blast
  qed (use it in \<open>simp_all add: emission_def\<close>)
qed

text \<open>
  C5. Let every component of the graph have properties in the validator's ranges, and let the
  Fresnel-style factor and the lens loss lie in [0, 1]. Then (1) in a single interaction of a
  ray of intensity at least 0, every outgoing ray is no brighter than the incoming one, and the
  intensities of all outgoing rays sum to at most the incoming intensity; (2) in every step of
  the tracer, each continuation queued for a ray is no brighter than that ray, and a ray is
  finished with the intensity it had; (3) so every ray a trace returns is no brighter than the
  power of the source it comes from.
\<close>

theorem intensity_never_increases:
  assumes valid: "\<forall>c \<in> set (g_components g). valid_properties (oc_properties c)"
    and fres: "\<And>c r. 0 \<le> fresnel E c r \<and> fresnel E c r \<le> 1"
    and loss: "0 \<le> lensLoss E \<and> lensLoss E \<le> 1"
  shows "(\<forall>c \<in> set (g_components g). \<forall>r. 0 \<le> intensity r \<longrightarrow>
            (\<forall>sp \<in> set (interact E c r). intensity (fst (continuation E c r sp)) \<le> intensity r) \<and>
            sum_list (map (\<lambda>sp. intensity (fst (continuation E c r sp))) (interact E c r))
              \<le> intensity r)
       \<and> (\<forall>r c p. 0 \<le> intensity r \<longrightarrow>
            (\<forall>it \<in> set (snd (process E g (r, c, p))). intensity (fst it) \<le> intensity r) \<and>
            (\<forall>x \<in> set (finished (fst (process E g (r, c, p)))). intensity x = intensity r))
       \<and> (\<forall>x \<in> set (trace E g ov).
            \<exists>c \<in> set (g_components g). \<exists>w p. oc_properties c = SourceProps w p \<and>
               originComponentId x = oc_id c \<and> 0 \<le> intensity x \<and> intensity x \<le> p)"
proof -
  have one: "(\<forall>sp \<in> set (interact E c r).
                0 \<le> intensity (fst (continuation E c r sp)) \<and>
                intensity (fst (continuation E c r sp)) \<le> intensity r)
           \<and> sum_list (map (\<lambda>sp. intensity (fst (continuation E c r sp))) (interact E c r))
                \<le> intensity r"
    if "c \<in> set (g_components g)" and "0 \<le> intensity r" for c r
    using interaction_bound [OF _ fres loss that(2)] valid that(1) by blast
  have next_step: "0 \<le> intensity (fst it) \<and> intensity (fst it) \<le> intensity r
                   \<and> originComponentId (fst it) = originComponentId r"
    if "it \<in> set (snd (process E g (r, c, p)))" and "0 \<le> intensity r" for it r c p
  proof -
    from process_next [OF that(1)] obtain d ps sp
      where d: "d \<in> set (g_components g)"
        and sp: "sp \<in> set (interact E d (r\<lparr>path := ps\<rparr>))"
        and it: "it = continuation E d (r\<lparr>path := ps\<rparr>) sp"
      by blast
    have "0 \<le> intensity (r\<lparr>path := ps\<rparr>)" using that(2) by simp
    from one [OF d this] sp it show ?thesis
      by (auto simp: continuation_origin)
  qed
  define P where "P = (\<lambda>it :: work_item. \<exists>c \<in> set (g_components g). \<exists>w p.
      oc_properties c = SourceProps w p \<and> originComponentId (fst it) = oc_id c \<and>
      0 \<le> intensity (fst it) \<and> intensity (fst it) \<le> p)"
  define Q where "Q = (\<lambda>x :: ray. \<exists>c \<in> set (g_components g). \<exists>w p.
      oc_properties c = SourceProps w p \<and> originComponentId x = oc_id c \<and>
      0 \<le> intensity x \<and> intensity x \<le> p)"
  have step: "(\<forall>x \<in> set (finished (fst (process E g item))). Q x) \<and>
              (\<forall>it \<in> set (snd (process E g item)). P it)" if "P item" for item
  proof -
    obtain r c p where item: "item = (r, c, p)" by (cases item)
    from that item obtain s w pw where s: "s \<in> set (g_components g)"
      "oc_properties s = SourceProps w pw" "originComponentId r = oc_id s"
      "0 \<le> intensity r" "intensity r \<le> pw"
      by (auto simp: P_def)
    have "Q x" if "x \<in> set (finished (fst (process E g item)))" for x
      using process_finished [of x E g r c p] that item s
      unfolding Q_def ends_def by auto
    moreover have "P it" if "it \<in> set (snd (process E g item))" for it
      using next_step [of it r c p] that item s
      unfolding P_def by fastforce
    ultimately show ?thesis by blast
  qed
  have start: "\<forall>it \<in> set (seeds E g ov). P it"
  proof
    fix it assume "it \<in> set (seeds E g ov)"
    from seeds_fresh [OF this] obtain c w p where c: "c \<in> set (g_components g)"
      "oc_properties c = SourceProps w p" "originComponentId (fst it) = oc_id c"
      "intensity (fst it) = p"
      by blast
    moreover have "0 \<le> p" using valid c(1,2) by fastforce
    ultimately show "P it" unfolding P_def by auto
  qed
  have "\<forall>x \<in> set (finished (propagate E g (seeds E g ov) no_result)). Q x"
    by (rule propagate_invariant [where P = P]) (use step start in \<open>simp_all add: no_result_def\<close>)
  then have three: "\<forall>x \<in> set (trace E g ov). Q x"
    by (simp add: trace_def trace_all_def)
  have two: "(\<forall>it \<in> set (snd (process E g (r, c, p))). intensity (fst it) \<le> intensity r) \<and>
             (\<forall>x \<in> set (finished (fst (process E g (r, c, p)))). intensity x = intensity r)"
    if "0 \<le> intensity r" for r c p
    using next_step [OF _ that] process_finished [of _ E g r c p]
    by (auto simp: ends_def)
  show ?thesis
    using one two three unfolding Q_def by blast
qed

theorem intensity_never_increases_witness:
  "list_all (\<lambda>c. valid_properties (oc_properties c)) (g_components splitter)
   \<and> map intensity (trace demo_engine splitter None) = [4 / 7, 3 / 7]
   \<and> list_all
        (\<lambda>x. \<exists>c \<in> set (g_components splitter). \<exists>w p. oc_properties c = SourceProps w p \<and>
              originComponentId x = oc_id c \<and> 0 \<le> intensity x \<and> intensity x \<le> p)
        (trace demo_engine splitter None)"
proof -
  have v: "\<forall>c \<in> set (g_components splitter). valid_properties (oc_properties c)"
    by (simp add: splitter_def node_def)
  have f: "\<And>c r. 0 \<le> fresnel demo_engine c r \<and> fresnel demo_engine c r \<le> 1"
    by (simp add: demo_engine_def)
  have l: "0 \<le> lensLoss demo_engine \<and> lensLoss demo_engine \<le> 1"
    by (simp add: demo_engine_def)
  have t: "map intensity (trace demo_engine splitter None) = [4 / 7, 3 / 7]"
    by (simp add: splitter_def demo_engine_def engine_defs)
  show ?thesis
    unfolding list_all_iff
    using v t intensity_never_increases [OF v f l, of None] by blast
qed

subsection \<open>Termination\<close>




subsection \<open>Sweep\<close>

text \<open>
  C7. With \<open>points = 1\<close> a sweep samples the single wavelength \<open>(startNm + stopNm) / 2\<close>. With
  \<open>points = N \<ge> 2\<close> it samples \<open>N\<close> wavelengths, the first \<open>startNm\<close>, the last \<open>stopNm\<close>, the
  \<open>i\<close>-th at \<open>startNm + i (stopNm - startNm) / (N - 1)\<close>.
\<close>

theorem sweep_samples:
  "(n_points q = 1 \<longrightarrow>
      map entry_wavelengthNm (sweep E g q) = [(startNm q + stopNm q) / 2])
   \<and> (2 \<le> n_points q \<longrightarrow>
        length (sweep E g q) = n_points q
      \<and> entry_wavelengthNm (hd (sweep E g q)) = startNm q
      \<and> entry_wavelengthNm (last (sweep E g q)) = stopNm q
      \<and> (\<forall>i < n_points q.
           entry_wavelengthNm (sweep E g q ! i)
             = startNm q + real i * ((stopNm q - startNm q) / real (n_points q - 1))))"
proof -
  have w: "map entry_wavelengthNm (sweep E g q) = sample_wavelengths q"
    by (simp add: sweep_def comp_def)
  have many: "length (sweep E g q) = n_points q
      \<and> entry_wavelengthNm (hd (sweep E g q)) = startNm q
      \<and> entry_wavelengthNm (last (sweep E g q)) = stopNm q
      \<and> (\<forall>i < n_points q.
           entry_wavelengthNm (sweep E g q ! i)
             = startNm q + real i * ((stopNm q - startNm q) / real (n_points q - 1)))"
    if n: "2 \<le> n_points q"
  proof -
    let ?f = "\<lambda>i. startNm q + real i * ((stopNm q - startNm q) / real (n_points q - 1))"
    have s: "sample_wavelengths q = map ?f [0 ..< n_points q]"
      using n by (simp add: sample_wavelengths_def)
    have len: "length (sweep E g q) = n_points q"
      using arg_cong [OF w, of length] s by simp
    have nth: "entry_wavelengthNm (sweep E g q ! i) = ?f i" if "i < n_points q" for i
    proof -
      have "entry_wavelengthNm (sweep E g q ! i) = map entry_wavelengthNm (sweep E g q) ! i"
        using that len by simp
      also have "\<dots> = ?f i" unfolding w s using that by simp
      finally show ?thesis .
    qed
    have ne: "sweep E g q \<noteq> []" using len n by auto
    have "entry_wavelengthNm (hd (sweep E g q)) = ?f 0"
      using nth [of 0] n ne by (simp add: hd_conv_nth)
    moreover have "entry_wavelengthNm (last (sweep E g q)) = ?f (n_points q - 1)"
      using nth [of "n_points q - 1"] n ne len by (simp add: last_conv_nth)
    moreover have "?f (n_points q - 1) = stopNm q"
      using n by simp
    ultimately show ?thesis using len nth by simp
  qed
  show ?thesis
    using w many by (simp add: sample_wavelengths_def)
qed

theorem sweep_samples_witness:
  "map entry_wavelengthNm (sweep demo_engine ring \<lparr>startNm = 400, stopNm = 700, n_points = 1\<rparr>) = [550]
   \<and> map entry_wavelengthNm (sweep demo_engine ring \<lparr>startNm = 400, stopNm = 700, n_points = 3\<rparr>)
       = [400, 550, 700]
   \<and> entry_wavelengthNm (last (sweep demo_engine ring \<lparr>startNm = 400, stopNm = 700, n_points = 3\<rparr>)) = 700"
proof -
  have a: "map entry_wavelengthNm (sweep demo_engine ring \<lparr>startNm = 400, stopNm = 700, n_points = 3\<rparr>)
       = [400, 550, 700]"
    by (simp add: sweep_def sample_wavelengths_def comp_def upt_rec)
  show ?thesis
    using a sweep_samples [of "\<lparr>startNm = 400, stopNm = 700, n_points = 1\<rparr>" demo_engine ring]
      sweep_samples [of "\<lparr>startNm = 400, stopNm = 700, n_points = 3\<rparr>" demo_engine ring]
    by simp
qed

subsection \<open>Statistics\<close>

text \<open>
  C8. \<open>aggregate\<close> returns statistics for every sequence of rays, never the division fault.
  With at least one absorbed ray, \<open>averageIntensity\<close> is the sum of the final intensities of
  the absorbed rays divided by their number; with none, it is 0 and the warning is appended.
\<close>

theorem aggregate_average:
  "\<exists>st ws. aggregate rs = Inr (st, ws)
     \<and> (if filter is_absorbed rs = []
        then averageIntensity st = 0 \<and> no_absorbed_warning \<in> set ws
        else averageIntensity st
               = sum_list (map intensity (filter is_absorbed rs)) / real (length (filter is_absorbed rs)))"
  by (simp add: aggregate_def divide_def Let_def)

theorem aggregate_average_witness:
  "(\<exists>st ws. aggregate three_rays = Inr (st, ws) \<and> averageIntensity st = 3 / 8)
   \<and> (\<exists>st ws. aggregate (trace demo_engine ring None) = Inr (st, ws) \<and> averageIntensity st = 0
         \<and> ws = [no_absorbed_warning])"
proof -
  have r: "map terminationReason (trace demo_engine ring None) = [Some MaxBounces]"
    by (simp add: ring_def demo_engine_def engine_defs)
  have none: "filter is_absorbed (trace demo_engine ring None) = []"
    using r by (cases "trace demo_engine ring None") (auto simp: is_absorbed_def)
  show ?thesis
    using aggregate_average [of three_rays] aggregate_average [of "trace demo_engine ring None"] none
    by (auto simp: three_rays_def is_absorbed_def aggregate_def Let_def)
qed

end
